theory Spec2Isabelle
  imports Main "HOL-Library.Sublist"
begin

section \<open>Strings\<close>

text \<open>
  Go strings are byte sequences and are modelled as \<^typ>\<open>string\<close>; text outside ASCII is
  written as its UTF-8 bytes. The strings of the TypeScript worker are modelled the same
  way (as the UTF-8 form of the text): substring tests agree with the source on well-formed
  text, and the only operation that would tell the difference, a length in code units, is
  not part of the model.
\<close>

abbreviation dq :: char where "dq \<equiv> CHR 0x22"
abbreviation bs :: char where "bs \<equiv> CHR 0x5C"
abbreviation nl :: char where "nl \<equiv> CHR 0x0A"
abbreviation bt :: char where "bt \<equiv> CHR 0x60"

text \<open>\<^verbatim>\<open>strings.Contains(s, substr)\<close> of Go and \<^verbatim>\<open>s.includes(sub)\<close> of JavaScript.\<close>

definition Contains :: "string \<Rightarrow> string \<Rightarrow> bool" where
  "Contains s substr = sublist substr s"

definition includes_str :: "string \<Rightarrow> string \<Rightarrow> bool" where
  "includes_str s sub = sublist sub s"

text \<open>
  White space. \<^verbatim>\<open>strings.TrimSpace\<close> of Go strips the runes of the Unicode property
  White_Space; \<^verbatim>\<open>trim()\<close> and the class \<^verbatim>\<open>\s\<close> of JavaScript strip the same runes without
  U+0085 and with U+FEFF. Each rune is listed by its UTF-8 bytes: the six ASCII ones, then
  U+00A0, U+1680, U+2000 to U+200A, U+2028, U+2029, U+202F, U+205F and U+3000.
\<close>

definition asciiSpaces :: "string list" where
  "asciiSpaces = [[CHR 0x09], [CHR 0x0A], [CHR 0x0B], [CHR 0x0C], [CHR 0x0D], [CHR 0x20]]"

definition unicodeSpaces :: "string list" where
  "unicodeSpaces =
     [[CHR 0xC2, CHR 0xA0], [CHR 0xE1, CHR 0x9A, CHR 0x80]]
     @ map (\<lambda>c. [CHR 0xE2, CHR 0x80, c])
         [CHR 0x80, CHR 0x81, CHR 0x82, CHR 0x83, CHR 0x84, CHR 0x85, CHR 0x86, CHR 0x87, CHR 0x88,
          CHR 0x89, CHR 0x8A, CHR 0xA8, CHR 0xA9, CHR 0xAF]
     @ [[CHR 0xE2, CHR 0x81, CHR 0x9F], [CHR 0xE3, CHR 0x80, CHR 0x80]]"

definition goSpaces :: "string list" where
  "goSpaces = asciiSpaces @ [[CHR 0xC2, CHR 0x85]] @ unicodeSpaces"

definition jsSpaces :: "string list" where
  "jsSpaces = asciiSpaces @ unicodeSpaces @ [[CHR 0xEF, CHR 0xBB, CHR 0xBF]]"

text \<open>The length of the rune of \<open>runes\<close> that \<open>s\<close> starts with, 0 when it starts with none.\<close>

definition runeLen :: "string list \<Rightarrow> string \<Rightarrow> nat" where
  "runeLen runes s = (case List.find (\<lambda>r. prefix r s) runes of None \<Rightarrow> 0 | Some r \<Rightarrow> length r)"

function trimLeft :: "string list \<Rightarrow> string \<Rightarrow> string" where
  "trimLeft runes s = (if runeLen runes s = 0 then s else trimLeft runes (drop (runeLen runes s) s))"
  by pat_completeness auto
termination
proof (relation "measure (\<lambda>(runes, s). length s)")
  show "wf (measure (\<lambda>(runes, s). length s))"
    by simp
next
  fix runes :: "string list" and s :: string
  assume "runeLen runes s \<noteq> 0"
  then obtain r where r: "prefix r s" "r \<noteq> []" "runeLen runes s = length r"
    by (auto simp add: runeLen_def find_Some_iff split: option.splits)
  then have "s \<noteq> []"
    by auto
  with r show "((runes, drop (runeLen runes s) s), (runes, s)) \<in> measure (\<lambda>(runes, s). length s)"
    by simp
qed

declare trimLeft.simps [simp del]

definition trimRight :: "string list \<Rightarrow> string \<Rightarrow> string" where
  "trimRight runes s = rev (trimLeft (map rev runes) (rev s))"

definition TrimSpace :: "string \<Rightarrow> string" where
  "TrimSpace s = trimRight goSpaces (trimLeft goSpaces s)"

definition trim :: "string \<Rightarrow> string" where
  "trim s = trimRight jsSpaces (trimLeft jsSpaces s)"

section \<open>The front-end (main.go)\<close>

subsection \<open>Data\<close>

text \<open>The message types of the line protocol (\<^verbatim>\<open>MessageType\<close>, a Go string).\<close>

definition MsgInit :: string where "MsgInit = ''init''"
definition MsgChat :: string where "MsgChat = ''chat''"
definition MsgError :: string where "MsgError = ''error''"
definition MsgResponse :: string where "MsgResponse = ''response''"
definition MsgToolCall :: string where "MsgToolCall = ''tool_call''"
definition MsgStreamChunk :: string where "MsgStreamChunk = ''stream_chunk''"

text \<open>
  An incoming envelope. \<^verbatim>\<open>Data\<close> is raw JSON in the source and is decoded by
  \<^verbatim>\<open>json.Unmarshal\<close> into a struct that depends on the type; the model holds the
  decoded form: the value every struct field receives, the empty string for a field that
  is absent or that failed to decode. \<^verbatim>\<open>ToolCallInfo\<close> (tool name and argument map) is
  kept abstract in \<open>tool\<close>: it is only rendered into one transcript line.
\<close>

record 't Payload =
  status :: string
  message :: string
  content :: string
  details :: string
  tool :: 't

record 't AgentMessage =
  Type :: string
  Data :: "'t Payload"

datatype AppState = StateAPIKey | StateChat

type_synonym time = nat

record ChatMessage =
  Role :: string
  Content :: string
  Timestamp :: time
  IsError :: bool

text \<open>
  The fields of \<^verbatim>\<open>Model\<close> that the update function reads or writes. The two text
  widgets are held by their current value; \<open>agentStdin\<close> says whether the pipe to the
  worker is set (not nil). The viewport, which is only rendered from \<open>messages\<close>, and the
  process handle are not modelled.
\<close>

record Model =
  state :: AppState
  apiKeyInput :: string
  chatInput :: string
  messages :: "ChatMessage list"
  agentStdin :: bool
  agentReady :: bool
  width :: int
  height :: int
  err :: "string option"
  isProcessing :: bool

datatype KeyType = KeyCtrlC | KeyEsc | KeyEnter | KeyCtrlS | KeyOther

datatype 't Msg =
    KeyMsg KeyType
  | WindowSizeMsg int int
  | agentStartedMsg
  | agentResponseMsg "'t AgentMessage"
  | errMsg string
  | otherMsg

text \<open>
  The commands \<^verbatim>\<open>Update\<close> returns for the runtime to run. \<open>WidgetCmd\<close> stands for a
  command returned by a text widget or the viewport (cursor blink and the like): it
  touches neither the worker nor the model.
\<close>

datatype Cmd = Quit | startAgentCmd string | listenToAgentCmd | sendChatMessageCmd string | WidgetCmd

text \<open>
  The library parts of the update: how each text widget changes its own value on a
  message (\<^verbatim>\<open>textinput.Update\<close>, \<^verbatim>\<open>textarea.Update\<close>), and the one-line rendering of
  a tool call (lines 410 to 514 of main.go, which format numbers and walk a Go map).
\<close>

record 't Widgets =
  apiKeyInputUpdate :: "'t Msg \<Rightarrow> string \<Rightarrow> string"
  chatInputUpdate :: "'t Msg \<Rightarrow> string \<Rightarrow> string"
  toolMsg :: "'t \<Rightarrow> string"

subsection \<open>Update\<close>

definition appendMessage :: "Model \<Rightarrow> ChatMessage \<Rightarrow> Model" where
  "appendMessage m e = m\<lparr>messages := messages m @ [e]\<rparr>"

text \<open>
  The chat-send block, which the source has twice (on Enter, lines 302 to 313, and on
  Ctrl+S, lines 319 to 330).
\<close>

definition trySend :: "time \<Rightarrow> Model \<Rightarrow> Model \<times> Cmd list" where
  "trySend now m =
     (let message = TrimSpace (chatInput m) in
      if message \<noteq> [] \<and> agentReady m \<and> \<not> isProcessing m then
        ((appendMessage m \<lparr>Role = ''user'', Content = message, Timestamp = now, IsError = False\<rparr>)
           \<lparr>chatInput := [], isProcessing := True\<rparr>,
         [sendChatMessageCmd message])
      else (m, []))"

definition onKey :: "time \<Rightarrow> Model \<Rightarrow> KeyType \<Rightarrow> Model \<times> Cmd list" where
  "onKey now m k =
     (case k of
        KeyEnter \<Rightarrow>
          if state m = StateAPIKey \<and> \<not> isProcessing m then
            (let apiKey = apiKeyInput m in
             if apiKey \<noteq> [] then (m\<lparr>isProcessing := True\<rparr>, [startAgentCmd apiKey])
             else (m, []))
          else if state m = StateChat \<and> \<not> Contains (chatInput m) [nl] then trySend now m
          else (m, [])
      | KeyCtrlS \<Rightarrow> if state m = StateChat then trySend now m else (m, [])
      | _ \<Rightarrow> (m, []))"

text \<open>The fold of one envelope of the worker into the model (lines 362 to 566).\<close>

definition onResponse :: "time \<Rightarrow> Model \<Rightarrow> 't Payload \<Rightarrow> Model" where
  "onResponse now m respData =
     (if status respData = ''initialized'' then
        appendMessage (m\<lparr>state := StateChat, agentReady := True, isProcessing := False\<rparr>)
          \<lparr>Role = ''system'',
           Content = [CHR 0xE2, CHR 0x9C, CHR 0x93] @
             '' Agent initialized successfully! You can now start by sending a message.'',
           Timestamp = now, IsError = False\<rparr>
      else if content respData \<noteq> [] then
        (if messages m \<noteq> [] \<and> Role (last (messages m)) = ''assistant''
            \<and> Content (last (messages m)) = content respData then
           m\<lparr>isProcessing := False\<rparr>
         else if messages m = [] \<or> Role (last (messages m)) \<noteq> ''assistant'' then
           (appendMessage m
              \<lparr>Role = ''assistant'', Content = content respData, Timestamp = now, IsError = False\<rparr>)
             \<lparr>isProcessing := False\<rparr>
         else m\<lparr>isProcessing := False\<rparr>)
      else m)"

definition onStreamChunk :: "time \<Rightarrow> Model \<Rightarrow> 't Payload \<Rightarrow> Model" where
  "onStreamChunk now m chunkData =
     (if status chunkData = ''thinking'' then
        appendMessage m
          \<lparr>Role = ''system'',
           Content = [CHR 0xF0, CHR 0x9F, CHR 0x92, CHR 0xAD] @ '' Thinking...'',
           Timestamp = now, IsError = False\<rparr>
      else if content chunkData \<noteq> [] then
        (if messages m \<noteq> [] \<and> Role (last (messages m)) = ''assistant'' then
           m\<lparr>messages := (messages m)
                [length (messages m) - 1 := (last (messages m))\<lparr>Content := content chunkData\<rparr>]\<rparr>
         else
           appendMessage m
             \<lparr>Role = ''assistant'', Content = content chunkData, Timestamp = now, IsError = False\<rparr>)
      else m)"

definition onAgentMessage :: "'t Widgets \<Rightarrow> time \<Rightarrow> Model \<Rightarrow> 't AgentMessage \<Rightarrow> Model" where
  "onAgentMessage W now m msg =
     (if Type msg = MsgResponse then onResponse now m (Data msg)
      else if Type msg = MsgToolCall then
        appendMessage m
          \<lparr>Role = ''tool'', Content = toolMsg W (tool (Data msg)), Timestamp = now, IsError = False\<rparr>
      else if Type msg = MsgStreamChunk then onStreamChunk now m (Data msg)
      else if Type msg = MsgError then
        (appendMessage m
           \<lparr>Role = ''system'',
            Content = [CHR 0xE2, CHR 0x9D, CHR 0x8C] @ '' Error: '' @ message (Data msg),
            Timestamp = now, IsError = True\<rparr>)
          \<lparr>isProcessing := False\<rparr>
      else m)"

text \<open>The last step of \<^verbatim>\<open>Update\<close>: the message is passed on to the widgets of the current screen.\<close>

definition updateSubComponents :: "'t Widgets \<Rightarrow> 't Msg \<Rightarrow> Model \<times> Cmd list \<Rightarrow> Model \<times> Cmd list" where
  "updateSubComponents W msg r =
     (case r of (m, cmds) \<Rightarrow>
        (case state m of
           StateAPIKey \<Rightarrow> (m\<lparr>apiKeyInput := apiKeyInputUpdate W msg (apiKeyInput m)\<rparr>, cmds @ [WidgetCmd])
         | StateChat \<Rightarrow>
             (m\<lparr>chatInput := chatInputUpdate W msg (chatInput m)\<rparr>, cmds @ [WidgetCmd, WidgetCmd])))"

definition Update :: "'t Widgets \<Rightarrow> time \<Rightarrow> Model \<Rightarrow> 't Msg \<Rightarrow> Model \<times> Cmd list" where
  "Update W now m msg =
     (case msg of
        KeyMsg k \<Rightarrow>
          if k = KeyCtrlC \<or> k = KeyEsc then (m, [Quit])
          else updateSubComponents W msg (onKey now m k)
      | WindowSizeMsg w h \<Rightarrow> updateSubComponents W msg (m\<lparr>width := w, height := h\<rparr>, [])
      | agentStartedMsg \<Rightarrow> updateSubComponents W msg (m\<lparr>agentStdin := True\<rparr>, [listenToAgentCmd])
      | agentResponseMsg a \<Rightarrow> updateSubComponents W msg (onAgentMessage W now m a, [listenToAgentCmd])
      | errMsg e \<Rightarrow>
          updateSubComponents W msg
            (appendMessage (m\<lparr>err := Some e, isProcessing := False\<rparr>)
               \<lparr>Role = ''system'',
                Content = [CHR 0xE2, CHR 0x9D, CHR 0x8C] @ '' System Error: '' @ e,
                Timestamp = now, IsError = True\<rparr>,
             [])
      | otherMsg \<Rightarrow> updateSubComponents W msg (m, []))"

text \<open>The conversation state: every field of the model but the widgets' own text.\<close>

definition conversation ::
  "Model \<Rightarrow> AppState \<times> ChatMessage list \<times> bool \<times> bool \<times> string option \<times> bool" where
  "conversation m = (state m, messages m, agentStdin m, agentReady m, err m, isProcessing m)"

subsection \<open>Writing to the worker\<close>

text \<open>
  Both writers build the payload as text with \<^verbatim>\<open>fmt.Sprintf\<close>, wrap it as
  \<^verbatim>\<open>json.RawMessage\<close> and pass the envelope to \<^verbatim>\<open>json.Marshal\<close>, whose error they
  discard. \<^verbatim>\<open>json.Marshal\<close> checks a raw message with the scanner of encoding/json and
  fails on text that is not valid JSON; the scanner is modelled here after RFC 8259, as
  the library implements it.
\<close>

definition isJsonSpace :: "char \<Rightarrow> bool" where
  "isJsonSpace c = (c = CHR 0x20 \<or> c = CHR 0x09 \<or> c = CHR 0x0D \<or> c = CHR 0x0A)"

definition isDigit :: "char \<Rightarrow> bool" where
  "isDigit c = (c \<in> set ''0123456789'')"

definition isHex :: "char \<Rightarrow> bool" where
  "isHex c = (c \<in> set ''0123456789abcdefABCDEF'')"

definition isControl :: "char \<Rightarrow> bool" where
  "isControl c = ((of_char c :: nat) < 0x20)"

text \<open>Inside a string literal, after its opening quote: the rest after the closing quote.\<close>

datatype strState = InString | InStringEsc | InStringEscU nat

fun scanString :: "strState \<Rightarrow> string \<Rightarrow> string option" where
  "scanString st [] = None"
| "scanString InString (c # cs) =
     (if c = dq then Some cs
      else if c = bs then scanString InStringEsc cs
      else if isControl c then None
      else scanString InString cs)"
| "scanString InStringEsc (c # cs) =
     (if c \<in> set (''bfnrt/'' @ [bs, dq]) then scanString InString cs
      else if c = CHR ''u'' then scanString (InStringEscU 4) cs
      else None)"
| "scanString (InStringEscU n) (c # cs) =
     (if isHex c then
        (if n \<le> 1 then scanString InString cs else scanString (InStringEscU (n - 1)) cs)
      else None)"

definition scanExp :: "string \<Rightarrow> string option" where
  "scanExp s =
     (case s of
        [] \<Rightarrow> Some []
      | c # cs \<Rightarrow>
          if c = CHR ''e'' \<or> c = CHR ''E'' then
            (case (case cs of [] \<Rightarrow> [] | d # ds \<Rightarrow> if d = CHR ''+'' \<or> d = CHR ''-'' then ds else cs) of
               [] \<Rightarrow> None
             | d # ds \<Rightarrow> if isDigit d then Some (dropWhile isDigit ds) else None)
          else Some s)"

definition scanFrac :: "string \<Rightarrow> string option" where
  "scanFrac s =
     (case s of
        [] \<Rightarrow> Some []
      | c # cs \<Rightarrow>
          if c = CHR ''.'' then
            (case cs of
               [] \<Rightarrow> None
             | d # ds \<Rightarrow> if isDigit d then scanExp (dropWhile isDigit ds) else None)
          else scanExp s)"

definition scanNumber :: "string \<Rightarrow> string option" where
  "scanNumber s =
     (case (case s of [] \<Rightarrow> [] | c # cs \<Rightarrow> if c = CHR ''-'' then cs else s) of
        [] \<Rightarrow> None
      | c # cs \<Rightarrow>
          if c = CHR ''0'' then scanFrac cs
          else if isDigit c then scanFrac (dropWhile isDigit cs)
          else None)"

text \<open>
  One JSON value, the members of an object and the elements of an array, each giving the
  rest of the input. The first argument bounds the recursion; every call consumes a
  character first, so the length of the input is enough.
\<close>

fun scanValue :: "nat \<Rightarrow> string \<Rightarrow> string option"
  and scanMembers :: "nat \<Rightarrow> string \<Rightarrow> string option"
  and scanElements :: "nat \<Rightarrow> string \<Rightarrow> string option" where
  "scanValue 0 s = None"
| "scanValue (Suc n) s =
     (case dropWhile isJsonSpace s of
        [] \<Rightarrow> None
      | c # cs \<Rightarrow>
          if c = CHR ''{'' then
            (case dropWhile isJsonSpace cs of
               [] \<Rightarrow> None
             | d # ds \<Rightarrow> if d = CHR ''}'' then Some ds else scanMembers n (d # ds))
          else if c = CHR ''['' then
            (case dropWhile isJsonSpace cs of
               [] \<Rightarrow> None
             | d # ds \<Rightarrow> if d = CHR '']'' then Some ds else scanElements n (d # ds))
          else if c = dq then scanString InString cs
          else if c = CHR ''-'' \<or> isDigit c then scanNumber (c # cs)
          else if prefix ''true'' (c # cs) then Some (drop 4 (c # cs))
          else if prefix ''false'' (c # cs) then Some (drop 5 (c # cs))
          else if prefix ''null'' (c # cs) then Some (drop 4 (c # cs))
          else None)"
| "scanMembers 0 s = None"
| "scanMembers (Suc n) s =
     (case dropWhile isJsonSpace s of
        [] \<Rightarrow> None
      | c # cs \<Rightarrow>
          if c = dq then
            (case scanString InString cs of
               None \<Rightarrow> None
             | Some r \<Rightarrow>
                 (case dropWhile isJsonSpace r of
                    [] \<Rightarrow> None
                  | e # es \<Rightarrow>
                      if e = CHR '':'' then
                        (case scanValue n es of
                           None \<Rightarrow> None
                         | Some r2 \<Rightarrow>
                             (case dropWhile isJsonSpace r2 of
                                [] \<Rightarrow> None
                              | f # fs \<Rightarrow>
                                  if f = CHR '','' then scanMembers n fs
                                  else if f = CHR ''}'' then Some fs
                                  else None))
                      else None))
          else None)"
| "scanElements 0 s = None"
| "scanElements (Suc n) s =
     (case scanValue n s of
        None \<Rightarrow> None
      | Some r \<Rightarrow>
          (case dropWhile isJsonSpace r of
             [] \<Rightarrow> None
           | f # fs \<Rightarrow>
               if f = CHR '','' then scanElements n fs
               else if f = CHR '']'' then Some fs
               else None))"

text \<open>\<^verbatim>\<open>json.Valid\<close>: one value, then white space only.\<close>

definition Valid :: "string \<Rightarrow> bool" where
  "Valid data =
     (case scanValue (Suc (length data)) data of
        None \<Rightarrow> False
      | Some r \<Rightarrow> dropWhile isJsonSpace r = [])"

text \<open>
  The compaction \<^verbatim>\<open>json.Marshal\<close> applies to a valid raw message: white space outside
  strings is dropped, and the characters \<^verbatim>\<open><\<close>, \<^verbatim>\<open>>\<close>, \<^verbatim>\<open>&\<close> and the line separators
  U+2028 and U+2029 are written as \<^verbatim>\<open>\u\<close> escapes.
\<close>

fun compact :: "bool \<Rightarrow> string \<Rightarrow> string" where
  "compact inStr [] = []"
| "compact inStr (c # cs) =
     (if c = CHR ''<'' then bs # ''u003c'' @ compact inStr cs
      else if c = CHR ''>'' then bs # ''u003e'' @ compact inStr cs
      else if c = CHR ''&'' then bs # ''u0026'' @ compact inStr cs
      else if c = CHR 0xE2 \<and> prefix [CHR 0x80, CHR 0xA8] cs then bs # ''u2028'' @ compact inStr (drop 2 cs)
      else if c = CHR 0xE2 \<and> prefix [CHR 0x80, CHR 0xA9] cs then bs # ''u2029'' @ compact inStr (drop 2 cs)
      else if inStr then
        (if c = bs then
           (case cs of [] \<Rightarrow> [c] | d # ds \<Rightarrow> c # d # compact True ds)
         else c # compact (c \<noteq> dq) cs)
      else if isJsonSpace c then compact False cs
      else c # compact (c = dq) cs)"

definition quoted :: "string \<Rightarrow> string" where
  "quoted s = dq # s @ [dq]"

text \<open>
  \<^verbatim>\<open>json.Marshal(AgentMessage{Type: ty, Data: data})\<close>: the bytes, or \<open>None\<close> for the
  error. The type is one of the constants above, which need no escaping; an empty
  \<^verbatim>\<open>Data\<close> is left out (\<^verbatim>\<open>omitempty\<close>).
\<close>

definition Marshal :: "string \<Rightarrow> string \<Rightarrow> string option" where
  "Marshal ty data =
     (if data = [] then Some (''{'' @ quoted ''type'' @ '':'' @ quoted ty @ ''}'')
      else if Valid data then
        Some (''{'' @ quoted ''type'' @ '':'' @ quoted ty @ '','' @ quoted ''data'' @ '':''
                @ compact False data @ ''}'')
      else None)"

text \<open>\<^verbatim>\<open>strings.ReplaceAll(s, old, new)\<close> for a non-empty \<open>old\<close>.\<close>

function ReplaceAll :: "string \<Rightarrow> string \<Rightarrow> string \<Rightarrow> string" where
  "ReplaceAll s old new =
     (if s = [] \<or> old = [] then s
      else if prefix old s then new @ ReplaceAll (drop (length old) s) old new
      else hd s # ReplaceAll (tl s) old new)"
  by pat_completeness auto
termination
  by (relation "measure (\<lambda>(s, old, new). length s)") (auto simp add: neq_Nil_conv)

declare ReplaceAll.simps [simp del]

text \<open>The two payloads, as \<^verbatim>\<open>fmt.Sprintf\<close> builds them (lines 212 and 269).\<close>

definition initData :: "string \<Rightarrow> string" where
  "initData apiKey = ''{'' @ quoted ''apiKey'' @ '':'' @ quoted apiKey @ ''}''"

definition chatData :: "string \<Rightarrow> string" where
  "chatData msg =
     ''{'' @ quoted ''message'' @ '':'' @ quoted (ReplaceAll msg [dq] [bs, dq]) @ ''}''"

text \<open>
  What reaches the worker's input stream: the marshalled bytes (nothing when
  \<^verbatim>\<open>json.Marshal\<close> failed and \<^verbatim>\<open>msgBytes\<close> is nil), then a line feed.
\<close>

definition writeLine :: "string option \<Rightarrow> string" where
  "writeLine msgBytes = (case msgBytes of None \<Rightarrow> [] | Some b \<Rightarrow> b) @ [nl]"

text \<open>
  \<^verbatim>\<open>sendChatMessage\<close>: the error it reports, or the bytes it writes to the worker.
\<close>

definition sendChatMessage :: "Model \<Rightarrow> string \<Rightarrow> string + string" where
  "sendChatMessage m msg =
     (if \<not> agentStdin m then Inl ''agent not initialized''
      else Inr (writeLine (Marshal MsgChat (chatData msg))))"

text \<open>
  \<^verbatim>\<open>startAgent\<close>: how the start of the child process went is an input; the result is the
  error reported, or the bytes written to the new worker.
\<close>

datatype Spawn =
    NoAgentDirectory
  | StdinPipeFailed string
  | StdoutPipeFailed string
  | StartFailed string
  | Started

definition startAgent :: "Spawn \<Rightarrow> string \<Rightarrow> string + string" where
  "startAgent spawn apiKey =
     (case spawn of
        NoAgentDirectory \<Rightarrow>
          Inl ''agent directory not found. Please run from the keploy-agent directory''
      | StdinPipeFailed e \<Rightarrow> Inl (''failed to create stdin pipe: '' @ e)
      | StdoutPipeFailed e \<Rightarrow> Inl (''failed to create stdout pipe: '' @ e)
      | StartFailed e \<Rightarrow> Inl (''failed to start agent: '' @ e)
      | Started \<Rightarrow> Inr (writeLine (Marshal MsgInit (initData apiKey))))"

section \<open>The test-generation tool (generate_unit_tests.ts)\<close>

subsection \<open>Values, the host and the world\<close>

text \<open>The objects handed to \<^verbatim>\<open>sendMessage\<close>, as JavaScript values.\<close>

datatype jsval = JUndefined | JBool bool | JNum nat | JStr string | JObj "(string \<times> jsval) list"

datatype TestFramework = testing | testify

definition frameworkName :: "TestFramework \<Rightarrow> string" where
  "frameworkName fw = (case fw of testing \<Rightarrow> ''testing'' | testify \<Rightarrow> ''testify'')"

text \<open>
  A row of the similarity search. \<open>similarity\<close> is the text of
  \<^verbatim>\<open>(1 - ex.distance).toFixed(3)\<close>, a floating-point rendering made outside the model.
\<close>

record example =
  file_path :: string
  chunk_id :: string
  exContent :: string
  similarity :: string

text \<open>
  The tool's input after schema validation. The coverage target is a whole number of
  percent here; the schema also admits fractions, whose rendering is floating point.
\<close>

record input =
  filePath :: string
  testFramework :: "TestFramework option"
  coverageTarget :: "nat option"

datatype node = RegularFile string | OtherNode

text \<open>
  The result of \<^verbatim>\<open>execAsync\<close>: the command ran and exited with status 0 (standard output,
  standard error), or the promise was rejected (non-zero exit, timeout, spawn failure)
  with an error that carries a message and both streams.
\<close>

datatype exec_result = Exited string string | Rejected string string string

text \<open>
  The external collaborators, as the tool sees them. \<open>generateText\<close> and \<open>execAsync\<close> take
  the number of the call first (the backend calls counted from 0, the test runs by their
  attempt number), so that one run may get a different answer at every call; the backend
  gets the system and the user prompt and answers with the error message or the text.
  \<open>writeDenied\<close> is the error with which the host refuses a write to a path, if it does.
\<close>

record 'e host =
  resolve :: "string \<Rightarrow> string \<Rightarrow> string"
  KEPLOY_EMBEDDING_SERVICE_URL :: "string option"
  KEPLOY_EMBED_DATABASE_URL :: "string option"
  fetchEmbeddings :: "string \<Rightarrow> string \<Rightarrow> string + 'e list"
  queryDatabase :: "string \<Rightarrow> 'e \<Rightarrow> string + example list"
  generateText :: "nat \<Rightarrow> string \<Rightarrow> string \<Rightarrow> string + string"
  execAsync :: "nat \<Rightarrow> string \<Rightarrow> exec_result"
  writeDenied :: "string \<Rightarrow> string option"

text \<open>
  What the tool changes: the files, the envelopes sent so far, the number of backend
  calls made, the commands run and the writes done, each in order.
\<close>

record world =
  files :: "string \<rightharpoonup> node"
  outbox :: "jsval list"
  generated :: nat
  executed :: "string list"
  written :: "(string \<times> string) list"

definition sendMessage :: "world \<Rightarrow> jsval \<Rightarrow> world" where
  "sendMessage w msg = w\<lparr>outbox := outbox w @ [msg]\<rparr>"

definition writeFile :: "'e host \<Rightarrow> string \<Rightarrow> string \<Rightarrow> world \<Rightarrow> string + world" where
  "writeFile H path data w =
     (case writeDenied H path of
        Some e \<Rightarrow> Inl e
      | None \<Rightarrow>
          Inr (w\<lparr>files := (files w)(path \<mapsto> RegularFile data), written := written w @ [(path, data)]\<rparr>))"

definition response :: "string \<Rightarrow> (string \<times> jsval) list \<Rightarrow> jsval" where
  "response text extra = JObj [(''type'', JStr ''response''), (''data'', JObj ((''content'', JStr text) # extra))]"

definition tool_call :: "string \<Rightarrow> (string \<times> jsval) list \<Rightarrow> jsval" where
  "tool_call name args =
     JObj [(''type'', JStr ''tool_call''), (''data'', JObj [(''toolName'', JStr name), (''args'', JObj args)])]"

subsection \<open>Text helpers\<close>

text \<open>\<^verbatim>\<open>Array.prototype.join\<close>.\<close>

fun join :: "string \<Rightarrow> string list \<Rightarrow> string" where
  "join sep [] = []"
| "join sep [x] = x"
| "join sep (x # y # ys) = x @ sep @ join sep (y # ys)"

text \<open>A natural number in decimal, as a template literal renders it.\<close>

function showNat :: "nat \<Rightarrow> string" where
  "showNat n = (if n < 10 then [''0123456789'' ! n] else showNat (n div 10) @ [''0123456789'' ! (n mod 10)])"
  by pat_completeness auto
termination
  by (relation "measure id") auto

declare showNat.simps [simp del]

text \<open>\<^verbatim>\<open>a || b\<close> on a string that may be undefined: the empty string is falsy too.\<close>

definition orElse :: "string option \<Rightarrow> string \<Rightarrow> string" where
  "orElse a b = (case a of None \<Rightarrow> b | Some s \<Rightarrow> if s = [] then b else s)"

text \<open>
  The four replacements that strip a code fence from the backend's answer:
  \<^verbatim>\<open>/^```go\s*/i\<close>, \<^verbatim>\<open>/```\s*$/i\<close>, \<^verbatim>\<open>/^```\s*/i\<close> and \<^verbatim>\<open>/```\s*$/i\<close> again.
\<close>

definition dropFenceGo :: "string \<Rightarrow> string" where
  "dropFenceGo s =
     (if prefix [bt, bt, bt] s \<and> length s \<ge> 5
         \<and> (s ! 3 = CHR ''g'' \<or> s ! 3 = CHR ''G'') \<and> (s ! 4 = CHR ''o'' \<or> s ! 4 = CHR ''O'')
      then trimLeft jsSpaces (drop 5 s) else s)"

definition dropFence :: "string \<Rightarrow> string" where
  "dropFence s = (if prefix [bt, bt, bt] s then trimLeft jsSpaces (drop 3 s) else s)"

fun dropFenceEnd :: "string \<Rightarrow> string" where
  "dropFenceEnd [] = []"
| "dropFenceEnd (c # cs) =
     (if prefix [bt, bt, bt] (c # cs) \<and> trimLeft jsSpaces (drop 3 (c # cs)) = [] then []
      else c # dropFenceEnd cs)"

definition cleanTestContent :: "string \<Rightarrow> string" where
  "cleanTestContent text = dropFenceEnd (dropFence (dropFenceEnd (dropFenceGo (trim text))))"

subsection \<open>Prompts and artifacts\<close>

definition exampleContext :: "example list \<Rightarrow> string" where
  "exampleContext examples =
     join [nl, nl]
       (map (\<lambda>(index, ex).
               ''Example '' @ showNat (index + 1) @ '' (similarity: '' @ similarity ex @ ''):''
                 @ [nl] @ exContent ex)
          (enumerate 0 examples))"

definition coverageText :: "nat option \<Rightarrow> string" where
  "coverageText target =
     showNat (case target of None \<Rightarrow> 80 | Some n \<Rightarrow> if n = 0 then 80 else n)"

text \<open>
  The system prompt. The first generation indents the lines between the first and the
  last by ten spaces; the regeneration does not.
\<close>

definition systemPrompt :: "string \<Rightarrow> TestFramework \<Rightarrow> nat option \<Rightarrow> string" where
  "systemPrompt indent fw target =
     join [nl]
       ([''You are an expert Go developer. Generate comprehensive unit tests for the provided Go code.'',
         []] @
        map (\<lambda>l. if l = [] then [] else indent @ l)
          [''Requirements:'',
           ''- Use the '' @ frameworkName fw @ '' testing framework'',
           ''- Target '' @ coverageText target @ ''% test coverage'',
           ''- Write meaningful tests that cover edge cases, error conditions, and normal operation'',
           ''- Use the similar code examples as reference for testing patterns'',
           ''- Include proper test function names (TestFunctionName)'',
           ''- Add table-driven tests where appropriate'',
           ''- Test both success and failure scenarios'',
           ''- Include proper assertions and error checking'',
           [],
           ''CRITICAL: Generate ONLY the raw Go test code content. Do NOT include:'',
           ''- Markdown code block syntax (backticks with go or plain backticks)'',
           ''- Any explanations or comments outside the code'',
           ''- Any formatting other than pure Go code'',
           ''- Package declarations or import statements (they will be added automatically)'',
           []] @
        [''Return only the test functions and their content.''])"

definition userPrompt :: "string \<Rightarrow> example list \<Rightarrow> TestFramework \<Rightarrow> string" where
  "userPrompt codeContent examples fw =
     join [nl]
       [''Generate unit tests for this Go code:'',
        [],
        [bt, bt, bt] @ ''go'',
        codeContent,
        [bt, bt, bt],
        [],
        ''Similar code examples from knowledge base:'',
        [bt, bt, bt],
        exampleContext examples,
        [bt, bt, bt],
        [],
        ''Please generate comprehensive unit tests using '' @ frameworkName fw @ '' framework.'']"

definition importStatement :: "TestFramework \<Rightarrow> string" where
  "importStatement fw =
     (if fw = testify then
        join [nl] [''import ('', ''  '' @ quoted ''testing'',
                   ''  '' @ quoted ''github.com/stretchr/testify/assert'', '')'']
      else join [nl] [''import ('', ''  '' @ quoted ''testing'', '')''])"

definition finalTestContent :: "TestFramework \<Rightarrow> string \<Rightarrow> string" where
  "finalTestContent fw clean =
     join [nl] [''package main'', [], importStatement fw, [], clean, []]"

text \<open>The placeholder of \<^verbatim>\<open>generateTests\<close> for a backend call that raised (lines 267 to 278).\<close>

definition fallbackTemplate :: "TestFramework \<Rightarrow> nat \<Rightarrow> string \<Rightarrow> string" where
  "fallbackTemplate fw nExamples errorText =
     join [nl]
       [''package main'',
        [],
        importStatement fw,
        [],
        ''// AI test generation failed, using fallback template'',
        ''// Vector search found '' @ showNat nExamples @ '' similar examples'',
        ''// Error: '' @ errorText,
        [],
        ''func TestPlaceholder(t *testing.T) {'',
        ''  t.Skip('' @ quoted ''AI test generation failed - please implement tests manually'' @ '')'',
        ''}'',
        []]"

text \<open>The guidance chosen from the error text of the failed run (lines 463 to 475).\<close>

datatype guidance =
    DuplicateDeclaration
  | UndefinedReference
  | FieldMismatch
  | SyntaxError
  | Generic

definition guidanceCategory :: "string \<Rightarrow> guidance" where
  "guidanceCategory errorMessage =
     (if includes_str errorMessage ''redeclared'' then DuplicateDeclaration
      else if includes_str errorMessage ''undefined:'' then UndefinedReference
      else if includes_str errorMessage ''unknown field'' then FieldMismatch
      else if includes_str errorMessage ''syntax error'' then SyntaxError
      else Generic)"

definition guidanceText :: "guidance \<Rightarrow> string" where
  "guidanceText g =
     (case g of
        DuplicateDeclaration \<Rightarrow>
          ''IMPORTANT: Fix duplicate import declarations. Make sure each import is only declared once.''
      | UndefinedReference \<Rightarrow>
          ''IMPORTANT: Fix undefined function/variable references. Make sure all functions and variables exist in the original code.''
      | FieldMismatch \<Rightarrow>
          ''IMPORTANT: Fix struct field names. Use the correct field names from the original struct definitions.''
      | SyntaxError \<Rightarrow>
          ''IMPORTANT: Fix Go syntax errors. Ensure proper Go syntax and formatting.''
      | Generic \<Rightarrow>
          ''IMPORTANT: Fix all compilation errors and ensure the test code is syntactically correct.'')"

definition errorGuidance :: "string \<Rightarrow> string" where
  "errorGuidance errorMessage = guidanceText (guidanceCategory errorMessage)"

definition userPromptRetry :: "string \<Rightarrow> example list \<Rightarrow> TestFramework \<Rightarrow> string \<Rightarrow> nat \<Rightarrow> string" where
  "userPromptRetry codeContent examples fw errorMessage attempt =
     join [nl]
       [''Generate unit tests for this Go code (attempt '' @ showNat (attempt + 1) @ ''):'',
        [],
        [bt, bt, bt] @ ''go'',
        codeContent,
        [bt, bt, bt],
        [],
        ''Similar code examples from knowledge base:'',
        [bt, bt, bt],
        exampleContext examples,
        [bt, bt, bt],
        [],
        ''Previous test attempt failed with these errors:'',
        errorMessage,
        [],
        errorGuidance errorMessage,
        [],
        ''Please fix the issues and generate working unit tests using '' @ frameworkName fw @ '' framework.'']"

definition retryFallbackTemplate :: "TestFramework \<Rightarrow> string \<Rightarrow> nat \<Rightarrow> string" where
  "retryFallbackTemplate fw errorMessage attempt =
     join [nl]
       [''package main'',
        [],
        importStatement fw,
        [],
        ''// AI test regeneration failed, using fallback template'',
        ''// Previous error: '' @ errorMessage,
        ''// Attempt: '' @ showNat (attempt + 1),
        [],
        ''func TestPlaceholder(t *testing.T) {'',
        ''  t.Skip('' @ quoted ''AI test regeneration failed - please implement tests manually'' @ '')'',
        ''}'',
        []]"

subsection \<open>Embedding, search and generation\<close>

definition generateEmbedding :: "'e host \<Rightarrow> string \<Rightarrow> string + 'e" where
  "generateEmbedding H text =
     (case KEPLOY_EMBEDDING_SERVICE_URL H of
        None \<Rightarrow> Inl ''KEPLOY_EMBEDDING_SERVICE_URL environment variable not set''
      | Some url \<Rightarrow>
          if url = [] then Inl ''KEPLOY_EMBEDDING_SERVICE_URL environment variable not set''
          else
            (case fetchEmbeddings H url text of
               Inl e \<Rightarrow> Inl (''Failed to generate embedding: '' @ e)
             | Inr [] \<Rightarrow> Inl ''Failed to generate embedding: No embeddings returned from service''
             | Inr (embedding # rest) \<Rightarrow> Inr embedding))"

definition searchVectorDatabase :: "'e host \<Rightarrow> 'e \<Rightarrow> string + example list" where
  "searchVectorDatabase H embedding =
     (case KEPLOY_EMBED_DATABASE_URL H of
        None \<Rightarrow> Inl ''KEPLOY_EMBED_DATABASE_URL environment variable not set''
      | Some url \<Rightarrow>
          if url = [] then Inl ''KEPLOY_EMBED_DATABASE_URL environment variable not set''
          else
            (case queryDatabase H url embedding of
               Inl e \<Rightarrow> Inl (''Database search failed: '' @ e)
             | Inr rows \<Rightarrow> Inr rows))"

text \<open>
  \<^verbatim>\<open>generateTests\<close>: one backend call; its answer is cleaned and put under the fixed
  package and import lines, and a call that raises gives the placeholder instead.
\<close>

definition generateTests ::
  "'e host \<Rightarrow> string \<Rightarrow> example list \<Rightarrow> TestFramework \<Rightarrow> nat option \<Rightarrow> world \<Rightarrow> string \<times> world" where
  "generateTests H codeContent examples fw target w =
     (case generateText H (generated w)
             (systemPrompt (replicate 10 (CHR 0x20)) fw target) (userPrompt codeContent examples fw) of
        Inr text \<Rightarrow> (finalTestContent fw (cleanTestContent text), w\<lparr>generated := Suc (generated w)\<rparr>)
      | Inl errorText \<Rightarrow>
          (fallbackTemplate fw (length examples) errorText, w\<lparr>generated := Suc (generated w)\<rparr>))"

definition generateTestsWithErrorContext ::
  "'e host \<Rightarrow> string \<Rightarrow> example list \<Rightarrow> TestFramework \<Rightarrow> nat option \<Rightarrow> string \<Rightarrow> nat \<Rightarrow> world
     \<Rightarrow> string \<times> world" where
  "generateTestsWithErrorContext H codeContent examples fw target errorMessage attempt w =
     (case generateText H (generated w)
             (systemPrompt [] fw target) (userPromptRetry codeContent examples fw errorMessage attempt) of
        Inr text \<Rightarrow> (finalTestContent fw (cleanTestContent text), w\<lparr>generated := Suc (generated w)\<rparr>)
      | Inl errorText \<Rightarrow>
          (retryFallbackTemplate fw errorMessage attempt, w\<lparr>generated := Suc (generated w)\<rparr>))"

subsection \<open>Running the tests, with retries\<close>

definition maxRetries :: nat where "maxRetries = 3"

text \<open>A caught JavaScript error: its message, and the streams when \<^verbatim>\<open>exec\<close> attached them.\<close>

record jsError =
  errMessage :: string
  errStdout :: "string option"
  errStderr :: "string option"

definition hasPass :: "string \<Rightarrow> bool" where
  "hasPass out = (includes_str out ''PASS'' \<or> includes_str out ''ok'')"

definition hasCompilationError :: "string \<Rightarrow> bool" where
  "hasCompilationError errOut =
     (includes_str errOut ''undefined:'' \<or> includes_str errOut ''redeclared''
      \<or> includes_str errOut ''unknown field'' \<or> includes_str errOut ''too many errors''
      \<or> includes_str errOut ''syntax error'')"

text \<open>
  The \<^verbatim>\<open>try\<close> block of one attempt (lines 307 to 346): the standard output of a run
  classified as passed, or the error the \<^verbatim>\<open>catch\<close> block receives.
\<close>

definition runAttempt :: "exec_result \<Rightarrow> jsError + string" where
  "runAttempt r =
     (case r of
        Exited out errOut \<Rightarrow>
          if hasPass out \<and> \<not> hasCompilationError errOut then Inr out
          else Inl \<lparr>errMessage = ''Tests failed: '' @ trim (out @ [nl] @ errOut),
                    errStdout = None, errStderr = None\<rparr>
      | Rejected msg out errOut \<Rightarrow>
          Inl \<lparr>errMessage = msg, errStdout = Some out, errStderr = Some errOut\<rparr>)"

datatype testResults =
    Passed (attempt: nat) (stdoutText: string)
  | Failed (attempts: nat) (finalError: string) (stdoutText: string)

definition success :: "testResults \<Rightarrow> bool" where
  "success r = (case r of Passed a out \<Rightarrow> True | Failed n e out \<Rightarrow> False)"

abbreviation checkMark :: string where "checkMark \<equiv> [CHR 0xE2, CHR 0x9C, CHR 0x85]"
abbreviation crossMark :: string where "crossMark \<equiv> [CHR 0xE2, CHR 0x9D, CHR 0x8C]"
abbreviation warningSign :: string where
  "warningSign \<equiv> [CHR 0xE2, CHR 0x9A, CHR 0xA0, CHR 0xEF, CHR 0xB8, CHR 0x8F]"
abbreviation retryArrows :: string where "retryArrows \<equiv> [CHR 0xF0, CHR 0x9F, CHR 0x94, CHR 0x84]"

text \<open>
  The regeneration inside the \<^verbatim>\<open>catch\<close> block (lines 361 to 403): a failure to write the
  new file is reported and the loop goes on.
\<close>

definition regenerate ::
  "'e host \<Rightarrow> string \<Rightarrow> string \<Rightarrow> string \<Rightarrow> example list \<Rightarrow> TestFramework \<Rightarrow> nat option \<Rightarrow> string
     \<Rightarrow> nat \<Rightarrow> world \<Rightarrow> world" where
  "regenerate H workDir testFilePath originalCode examples fw target errorMessage n w =
     (case generateTestsWithErrorContext H originalCode examples fw target errorMessage n
             (sendMessage w
                (response (retryArrows @ '' Regenerating tests (attempt '' @ showNat (n + 1) @ ''/''
                             @ showNat maxRetries @ '')...'') [])) of
        (newTestContent, w2) \<Rightarrow>
          (case writeFile H (resolve H workDir testFilePath) newTestContent w2 of
             Inr w3 \<Rightarrow>
               sendMessage w3
                 (response (checkMark @ '' Test file regenerated successfully for attempt ''
                              @ showNat (n + 1)) [])
           | Inl regenerateError \<Rightarrow>
               sendMessage w2
                 (response (warningSign @ '' Failed to regenerate tests: '' @ regenerateError) [])))"

text \<open>
  The body of the \<^verbatim>\<open>while\<close> loop for one attempt: the result when the run passed, or the
  caught error and the world in which the next attempt starts.
\<close>

definition attemptOnce ::
  "'e host \<Rightarrow> string \<Rightarrow> string \<Rightarrow> string \<Rightarrow> example list \<Rightarrow> TestFramework \<Rightarrow> nat option
     \<Rightarrow> nat \<Rightarrow> world \<Rightarrow> (jsError \<times> world) + (testResults \<times> world)" where
  "attemptOnce H workDir testFilePath originalCode examples fw target n w =
     (let command = ''go test -v ./'' @ testFilePath;
          w1 = (sendMessage w
                  (tool_call ''run_command'' [(''command'', JStr command), (''timeout'', JNum 30000)]))
                 \<lparr>executed := executed w @ [command]\<rparr>
      in case runAttempt (execAsync H n command) of
           Inr out \<Rightarrow>
             Inr (Passed n out,
                  sendMessage w1
                    (response (checkMark @ '' Tests passed on attempt '' @ showNat n @ ''!'')
                       [(''testOutput'', JStr out)]))
         | Inl error \<Rightarrow>
             (let errorMessage =
                    orElse (errStderr error) (orElse (Some (errMessage error)) ''Unknown test error'');
                  w2 = sendMessage w1
                         (response (crossMark @ '' Test attempt '' @ showNat n @ '' failed: '' @ errorMessage)
                            [(''testOutput'', JStr (orElse (errStdout error) []))])
              in Inl (error,
                      if n < maxRetries then
                        regenerate H workDir testFilePath originalCode examples fw target errorMessage n w2
                      else w2)))"

function executeLoop ::
  "'e host \<Rightarrow> string \<Rightarrow> string \<Rightarrow> string \<Rightarrow> example list \<Rightarrow> TestFramework \<Rightarrow> nat option
     \<Rightarrow> nat \<Rightarrow> jsError option \<Rightarrow> world \<Rightarrow> testResults \<times> world" where
  "executeLoop H workDir testFilePath originalCode examples fw target n lastError w =
     (if n \<le> maxRetries then
        (case attemptOnce H workDir testFilePath originalCode examples fw target n w of
           Inr done \<Rightarrow> done
         | Inl (error, w') \<Rightarrow>
             executeLoop H workDir testFilePath originalCode examples fw target (n + 1) (Some error) w')
      else
        (Failed maxRetries
           (orElse (map_option errMessage lastError) ''Unknown error'')
           (orElse (case lastError of None \<Rightarrow> None | Some e \<Rightarrow> errStdout e) []),
         sendMessage w
           (response (crossMark @ '' All '' @ showNat maxRetries @ '' test attempts failed. Final error: ''
                        @ orElse (map_option errMessage lastError) ''Unknown error'') [])))"
  by pat_completeness auto
termination
  by (relation "measure (\<lambda>(H, workDir, testFilePath, originalCode, examples, fw, target, n, lastError, w).
        Suc maxRetries - n)") auto

declare executeLoop.simps [simp del]

definition executeTestsWithRetry ::
  "'e host \<Rightarrow> string \<Rightarrow> string \<Rightarrow> string \<Rightarrow> example list \<Rightarrow> TestFramework \<Rightarrow> nat option
     \<Rightarrow> world \<Rightarrow> testResults \<times> world" where
  "executeTestsWithRetry H workDir testFilePath originalCode examples fw target w =
     executeLoop H workDir testFilePath originalCode examples fw target 1 None w"

subsection \<open>The tool\<close>

datatype toolResult =
    ToolError string string
  | ToolOk string string TestFramework testResults

text \<open>\<^verbatim>\<open>filePath.replace(/\.go$/, '_test.go')\<close>.\<close>

definition testPathOf :: "string \<Rightarrow> string" where
  "testPathOf path =
     (if suffix ''.go'' path then take (length path - 3) path @ ''_test.go'' else path)"

text \<open>
  \<^verbatim>\<open>execute\<close> of the tool. A rejected \<^verbatim>\<open>fs.stat\<close> and every other exception end in
  the \<^verbatim>\<open>catch\<close> of line 105, which returns the message with the path. The size and the
  creation time of the result object are not modelled.
\<close>

text \<open>The framework parameter with its default (\<^verbatim>\<open>testFramework = 'testing'\<close>).\<close>

definition frameworkOf :: "input \<Rightarrow> TestFramework" where
  "frameworkOf inp = (case testFramework inp of None \<Rightarrow> testing | Some f \<Rightarrow> f)"

definition execute :: "'e host \<Rightarrow> string \<Rightarrow> input \<Rightarrow> world \<Rightarrow> toolResult \<times> world" where
  "execute H workDir inp w0 =
     (let path = filePath inp;
          fw = frameworkOf inp;
          target = coverageTarget inp;
          w1 = sendMessage w0
                 (tool_call ''generate_unit_tests''
                    [(''filePath'', JStr path),
                     (''testFramework'', JStr (frameworkName fw)),
                     (''coverageTarget'', case target of None \<Rightarrow> JUndefined | Some n \<Rightarrow> JNum n)]);
          fullPath = resolve H workDir path
      in case files w1 fullPath of
           None \<Rightarrow>
             (ToolError (''ENOENT: no such file or directory, stat '' @ [CHR 0x27] @ fullPath @ [CHR 0x27]) path,
              w1)
         | Some OtherNode \<Rightarrow> (ToolError (''Path is not a file: '' @ path) path, w1)
         | Some (RegularFile text) \<Rightarrow>
             if \<not> suffix ''.go'' path then (ToolError (''File is not a Go file: '' @ path) path, w1)
             else
               (case generateEmbedding H text of
                  Inl e \<Rightarrow> (ToolError e path, w1)
                | Inr embedding \<Rightarrow>
                    (case searchVectorDatabase H embedding of
                       Inl e \<Rightarrow> (ToolError e path, w1)
                     | Inr examples \<Rightarrow>
                         (case generateTests H text examples fw target w1 of
                            (testContent, w2) \<Rightarrow>
                              (let testFilePath = testPathOf path;
                                   fullTestPath = resolve H workDir testFilePath;
                                   w3 = (if files w2 fullTestPath \<noteq> None then
                                           sendMessage w2
                                             (response
                                                (warningSign @ '' Test file '' @ testFilePath
                                                   @ '' already exists. This operation will overwrite the existing file.'')
                                                [(''requiresUserConfirmation'', JBool True),
                                                 (''operation'', JStr ''overwrite_test_file''),
                                                 (''filePath'', JStr testFilePath),
                                                 (''fullPath'', JStr fullTestPath)])
                                         else w2)
                               in case writeFile H fullTestPath testContent w3 of
                                    Inl e \<Rightarrow> (ToolError e path, w3)
                                  | Inr w4 \<Rightarrow>
                                      (case executeTestsWithRetry H workDir testFilePath text examples
                                              fw target w4 of
                                         (results, w5) \<Rightarrow>
                                           (ToolOk path testFilePath fw results, w5)))))))"

section \<open>The specification's wording of the pass criterion\<close>

text \<open>
  The classification of a run as the specification words it, for comparison with
  \<open>runAttempt\<close>: a pass signal in the standard output and none of a list of markers in
  the standard error; a rejected run is a failure. \<open>specMarkers\<close> are the markers the
  specification names, \<open>codeMarkers\<close> the ones \<open>hasCompilationError\<close> looks for.
\<close>

definition specMarkers :: "string list" where
  "specMarkers =
     [''undefined reference'', ''redeclared'', ''unknown field'', ''syntax error'', ''too many errors'']"

definition codeMarkers :: "string list" where
  "codeMarkers = [''undefined:'', ''redeclared'', ''unknown field'', ''syntax error'', ''too many errors'']"

definition classifiedSuccess :: "string list \<Rightarrow> exec_result \<Rightarrow> bool" where
  "classifiedSuccess markers r =
     (case r of
        Exited out errOut \<Rightarrow> hasPass out \<and> \<not> list_ex (includes_str errOut) markers
      | Rejected msg out errOut \<Rightarrow> False)"

definition specSuccess :: "exec_result \<Rightarrow> bool" where
  "specSuccess r = classifiedSuccess specMarkers r"

text \<open>Whether the \<^verbatim>\<open>try\<close> block of an attempt returns, rather than throws.\<close>

definition attemptPassed :: "exec_result \<Rightarrow> bool" where
  "attemptPassed r = (case runAttempt r of Inl e \<Rightarrow> False | Inr out \<Rightarrow> True)"

section \<open>Concrete inputs\<close>

text \<open>Widgets that leave their text alone, and a chat session waiting for the worker.\<close>

definition idleWidgets :: "unit Widgets" where
  "idleWidgets =
     \<lparr>apiKeyInputUpdate = (\<lambda>msg v. v), chatInputUpdate = (\<lambda>msg v. v), toolMsg = (\<lambda>t. ''tool'')\<rparr>"

definition chatModel :: "string \<Rightarrow> ChatMessage list \<Rightarrow> bool \<Rightarrow> Model" where
  "chatModel typed transcript busy =
     \<lparr>state = StateChat, apiKeyInput = [], chatInput = typed, messages = transcript,
      agentStdin = True, agentReady = True, width = 80, height = 24, err = None,
      isProcessing = busy\<rparr>"

definition assistantSaid :: "string \<Rightarrow> ChatMessage" where
  "assistantSaid text = \<lparr>Role = ''assistant'', Content = text, Timestamp = 1, IsError = False\<rparr>"

definition userSaid :: "string \<Rightarrow> ChatMessage" where
  "userSaid text = \<lparr>Role = ''user'', Content = text, Timestamp = 1, IsError = False\<rparr>"

definition envelope :: "string \<Rightarrow> string \<Rightarrow> string \<Rightarrow> unit Msg" where
  "envelope ty st text =
     agentResponseMsg
       \<lparr>Type = ty, Data = \<lparr>status = st, message = [], content = text, details = [], tool = ()\<rparr>\<rparr>"

text \<open>
  A host whose services answer but whose generative backend and test runner always fail,
  and a world that holds one Go source file.
\<close>

definition failingHost :: "unit host" where
  "failingHost =
     \<lparr>resolve = (\<lambda>dir path. dir @ ''/'' @ path),
      KEPLOY_EMBEDDING_SERVICE_URL = Some ''http://embed'',
      KEPLOY_EMBED_DATABASE_URL = Some ''postgres://db'',
      fetchEmbeddings = (\<lambda>url text. Inr [()]),
      queryDatabase = (\<lambda>url v. Inr []),
      generateText = (\<lambda>k sys usr. Inl ''service unavailable''),
      execAsync = (\<lambda>k cmd. Rejected ''Command failed'' ''FAIL'' ''exit status 1''),
      writeDenied = (\<lambda>path. None)\<rparr>"

definition sourceWorld :: world where
  "sourceWorld =
     \<lparr>files = [''/w/a.go'' \<mapsto> RegularFile ''package main''], outbox = [], generated = 0,
      executed = [], written = []\<rparr>"

definition request :: "string \<Rightarrow> input" where
  "request path = \<lparr>filePath = path, testFramework = None, coverageTarget = None\<rparr>"

text \<open>
  Two more hosts: one whose backend answers the first call and reports an exhausted
  quota at every later one, and one that refuses every write. \<open>rejection\<close> is the error
  of the failing test runner of these hosts.
\<close>

definition quotaHost :: "unit host" where
  "quotaHost =
     failingHost\<lparr>generateText :=
       (\<lambda>k sys usr. if k = 0 then Inr ''func TestA(t *testing.T) {}'' else Inl ''quota exceeded'')\<rparr>"

definition readOnlyHost :: "unit host" where
  "readOnlyHost = failingHost\<lparr>writeDenied := (\<lambda>path. Some ''EACCES: permission denied'')\<rparr>"

definition rejection :: jsError where
  "rejection = \<lparr>errMessage = ''Command failed'', errStdout = Some ''FAIL'', errStderr = Some ''exit status 1''\<rparr>"

text \<open>\<open>includes_str\<close> with the arguments swapped: the text sought first.\<close>

definition includedIn :: "string \<Rightarrow> string \<Rightarrow> bool" where
  "includedIn sub s = includes_str s sub"

section \<open>Facts about the front-end\<close>

lemmas MessageType_defs =
  MsgInit_def MsgChat_def MsgError_def MsgResponse_def MsgToolCall_def MsgStreamChunk_def

lemma conversation_updateSubComponents:
  "conversation (fst (updateSubComponents W msg (m, cmds))) = conversation m"
  by (simp add: updateSubComponents_def conversation_def split: AppState.split)

lemma messages_updateSubComponents:
  "messages (fst (updateSubComponents W msg (m, cmds))) = messages m"
  by (simp add: updateSubComponents_def split: AppState.split)

lemma isProcessing_updateSubComponents:
  "isProcessing (fst (updateSubComponents W msg (m, cmds))) = isProcessing m"
  by (simp add: updateSubComponents_def split: AppState.split)

lemma snd_updateSubComponents:
  "set (snd (updateSubComponents W msg (m, cmds))) = set cmds \<union> {WidgetCmd}"
  by (auto simp add: updateSubComponents_def split: AppState.split)

lemma Update_agentResponse:
  "Update W now m (agentResponseMsg a) =
     updateSubComponents W (agentResponseMsg a) (onAgentMessage W now m a, [listenToAgentCmd])"
  by (simp add: Update_def)

lemma Update_key:
  "k \<noteq> KeyCtrlC \<Longrightarrow> k \<noteq> KeyEsc \<Longrightarrow>
     Update W now m (KeyMsg k) = updateSubComponents W (KeyMsg k) (onKey now m k)"
  by (simp add: Update_def)

lemma conversation_fields:
  "conversation a = conversation b \<Longrightarrow>
     state a = state b \<and> messages a = messages b \<and> agentStdin a = agentStdin b \<and>
     agentReady a = agentReady b \<and> err a = err b \<and> isProcessing a = isProcessing b"
  by (simp add: conversation_def)

subsection \<open>Duplicate responses\<close>

lemma onResponse_duplicate:
  assumes "messages m \<noteq> []" "Role (last (messages m)) = ''assistant''"
    "Content (last (messages m)) = content d" "content d \<noteq> []" "status d \<noteq> ''initialized''"
  shows "onResponse now m d = m\<lparr>isProcessing := False\<rparr>"
  using assms by (simp add: onResponse_def)

lemma fold_duplicate:
  assumes "messages m \<noteq> []" and "Role (last (messages m)) = ''assistant''"
    and "Content (last (messages m)) = content d" and "content d \<noteq> []"
    and "status d \<noteq> ''initialized''"
  shows "conversation (fst (Update W now m (agentResponseMsg \<lparr>Type = MsgResponse, Data = d\<rparr>)))
     = conversation (m\<lparr>isProcessing := False\<rparr>)"
  using assms
  by (simp add: Update_agentResponse conversation_updateSubComponents onAgentMessage_def
      onResponse_duplicate)

text \<open>
  Claim C4, as amended. When the transcript ends in an assistant entry with content \<open>C\<close>,
  \<open>C\<close> is not empty, and a \<^verbatim>\<open>response\<close> envelope carries the content \<open>C\<close> and a status
  other than \<^verbatim>\<open>initialized\<close>, folding the envelope leaves the transcript as it is and
  clears \<open>isProcessing\<close>; folding it a second time changes nothing in the conversation
  state.
\<close>

theorem dedup_idempotence:
  assumes "messages m \<noteq> []" and "Role (last (messages m)) = ''assistant''"
    and "Content (last (messages m)) = C" and "C \<noteq> []"
    and "content d = C" and "status d \<noteq> ''initialized''"
  shows "messages (fst (Update W now m (agentResponseMsg \<lparr>Type = MsgResponse, Data = d\<rparr>))) = messages m
    \<and> \<not> isProcessing (fst (Update W now m (agentResponseMsg \<lparr>Type = MsgResponse, Data = d\<rparr>)))
    \<and> conversation (fst (Update W now' (fst (Update W now m (agentResponseMsg \<lparr>Type = MsgResponse, Data = d\<rparr>)))
          (agentResponseMsg \<lparr>Type = MsgResponse, Data = d\<rparr>)))
      = conversation (fst (Update W now m (agentResponseMsg \<lparr>Type = MsgResponse, Data = d\<rparr>)))"
proof -
  define r :: "'a Msg" where "r = agentResponseMsg \<lparr>Type = MsgResponse, Data = d\<rparr>"
  define m1 where "m1 = fst (Update W now m r)"
  have c1: "conversation m1 = conversation (m\<lparr>isProcessing := False\<rparr>)"
    unfolding m1_def r_def using assms by (intro fold_duplicate) simp_all
  have f1: "messages m1 = messages m" "\<not> isProcessing m1"
    using conversation_fields [OF c1] by simp_all
  have c2: "conversation (fst (Update W now' m1 r)) = conversation (m1\<lparr>isProcessing := False\<rparr>)"
    unfolding r_def using assms f1 by (intro fold_duplicate) simp_all
  have "conversation (m1\<lparr>isProcessing := False\<rparr>) = conversation m1"
    using f1 by (simp add: conversation_def)
  with c2 f1 show ?thesis
    unfolding m1_def r_def by simp
qed

theorem dedup_idempotence_witness:
  "messages (chatModel [] [assistantSaid ''Hello''] True) \<noteq> []
   \<and> Role (last (messages (chatModel [] [assistantSaid ''Hello''] True))) = ''assistant''
   \<and> messages (fst (Update idleWidgets 2 (chatModel [] [assistantSaid ''Hello''] True)
         (envelope MsgResponse [] ''Hello''))) = [assistantSaid ''Hello'']
   \<and> \<not> isProcessing (fst (Update idleWidgets 2 (chatModel [] [assistantSaid ''Hello''] True)
         (envelope MsgResponse [] ''Hello'')))
   \<and> conversation (fst (Update idleWidgets 3
         (fst (Update idleWidgets 2 (chatModel [] [assistantSaid ''Hello''] True)
            (envelope MsgResponse [] ''Hello'')))
         (envelope MsgResponse [] ''Hello'')))
     = conversation (fst (Update idleWidgets 2 (chatModel [] [assistantSaid ''Hello''] True)
         (envelope MsgResponse [] ''Hello'')))"
  using dedup_idempotence [where m = "chatModel [] [assistantSaid ''Hello''] True" and C = "''Hello''"
      and d = "\<lparr>status = [], message = [], content = ''Hello'', details = [], tool = ()\<rparr>"
      and W = idleWidgets and now = 2 and now' = 3]
  by (simp add: chatModel_def assistantSaid_def envelope_def)

text \<open>
  The claim as first stated fails in two places: a \<^verbatim>\<open>response\<close> whose status is
  \<^verbatim>\<open>initialized\<close> is folded as the handshake whatever its content and appends a system
  entry; and with an empty \<open>C\<close> the envelope has no content, so nothing is folded and
  \<open>isProcessing\<close> stays set.
\<close>

theorem dedup_idempotence_counterexample:
  "messages (fst (Update idleWidgets 2 (chatModel [] [assistantSaid ''Hello''] True)
       (envelope MsgResponse ''initialized'' ''Hello'')))
     \<noteq> messages (chatModel [] [assistantSaid ''Hello''] True)
   \<and> isProcessing (fst (Update idleWidgets 2 (chatModel [] [assistantSaid []] True)
       (envelope MsgResponse [] [])))"
  by (simp add: Update_def onAgentMessage_def onResponse_def updateSubComponents_def
      appendMessage_def MessageType_defs chatModel_def assistantSaid_def envelope_def)

subsection \<open>Streamed chunks\<close>

lemma onStreamChunk_messages:
  assumes "content d \<noteq> []" and "status d \<noteq> ''thinking''"
  shows "messages (onStreamChunk now m d) =
    (if messages m \<noteq> [] \<and> Role (last (messages m)) = ''assistant''
     then butlast (messages m) @ [(last (messages m))\<lparr>Content := content d\<rparr>]
     else messages m @ [\<lparr>Role = ''assistant'', Content = content d, Timestamp = now, IsError = False\<rparr>])"
proof (cases "messages m \<noteq> [] \<and> Role (last (messages m)) = ''assistant''")
  case True
  then obtain xs x where xs: "messages m = xs @ [x]"
    by (metis append_butlast_last_id)
  with True assms show ?thesis
    by (simp add: onStreamChunk_def)
next
  case False
  with assms show ?thesis
    by (auto simp add: onStreamChunk_def appendMessage_def)
qed

lemma Update_chunk_messages:
  "messages (fst (Update W now m (agentResponseMsg \<lparr>Type = MsgStreamChunk, Data = d\<rparr>)))
     = messages (onStreamChunk now m d)"
  by (simp add: Update_agentResponse messages_updateSubComponents onAgentMessage_def
      MessageType_defs)

text \<open>
  Claim C5, as amended. A \<^verbatim>\<open>stream_chunk\<close> envelope with non-empty content and a status
  other than \<^verbatim>\<open>thinking\<close> replaces the content of the last entry when that entry is an
  assistant entry, leaving the entries before it, its time stamp and its flag alone, and
  appends a new assistant entry otherwise. In the second case a further such chunk
  refines that same entry: two chunks from a transcript that does not end in an assistant
  entry leave exactly one entry more, with the content of the second chunk.
\<close>

theorem streaming_refinement:
  assumes "content d \<noteq> []" and "status d \<noteq> ''thinking''"
  shows "(if messages m \<noteq> [] \<and> Role (last (messages m)) = ''assistant''
      then messages (fst (Update W now m (agentResponseMsg \<lparr>Type = MsgStreamChunk, Data = d\<rparr>)))
             = butlast (messages m) @ [(last (messages m))\<lparr>Content := content d\<rparr>]
      else messages (fst (Update W now m (agentResponseMsg \<lparr>Type = MsgStreamChunk, Data = d\<rparr>)))
             = messages m @ [\<lparr>Role = ''assistant'', Content = content d, Timestamp = now, IsError = False\<rparr>]
         \<and> (content d' \<noteq> [] \<and> status d' \<noteq> ''thinking'' \<longrightarrow>
             messages (fst (Update W now'
                 (fst (Update W now m (agentResponseMsg \<lparr>Type = MsgStreamChunk, Data = d\<rparr>)))
                 (agentResponseMsg \<lparr>Type = MsgStreamChunk, Data = d'\<rparr>)))
               = messages m @ [\<lparr>Role = ''assistant'', Content = content d', Timestamp = now, IsError = False\<rparr>]))"
  using assms
  by (simp add: Update_chunk_messages onStreamChunk_messages)

theorem streaming_refinement_witness:
  "messages (fst (Update idleWidgets 2 (chatModel [] [assistantSaid ''Hel''] True)
       (envelope MsgStreamChunk [] ''Hello''))) = [assistantSaid ''Hello'']
   \<and> messages (fst (Update idleWidgets 3
         (fst (Update idleWidgets 2 (chatModel [] [userSaid ''hi''] True) (envelope MsgStreamChunk [] ''Hel'')))
         (envelope MsgStreamChunk [] ''Hello'')))
     = [userSaid ''hi'', \<lparr>Role = ''assistant'', Content = ''Hello'', Timestamp = 2, IsError = False\<rparr>]"
  using streaming_refinement [where m = "chatModel [] [assistantSaid ''Hel''] True"
      and d = "\<lparr>status = [], message = [], content = ''Hello'', details = [], tool = ()\<rparr>"
      and W = idleWidgets and now = 2]
    streaming_refinement [where m = "chatModel [] [userSaid ''hi''] True"
      and d = "\<lparr>status = [], message = [], content = ''Hel'', details = [], tool = ()\<rparr>"
      and d' = "\<lparr>status = [], message = [], content = ''Hello'', details = [], tool = ()\<rparr>"
      and W = idleWidgets and now = 2 and now' = 3]
  by (simp add: chatModel_def assistantSaid_def userSaid_def envelope_def)

text \<open>
  The claim as first stated fails for a chunk that has content and the status
  \<^verbatim>\<open>thinking\<close>: the status is tested first, a system entry is appended and the assistant
  entry keeps its old content.
\<close>

theorem streaming_refinement_counterexample:
  "messages (fst (Update idleWidgets 2 (chatModel [] [assistantSaid ''Hel''] True)
       (envelope MsgStreamChunk ''thinking'' ''Hello'')))
     \<noteq> [assistantSaid ''Hello'']
   \<and> Content (hd (messages (fst (Update idleWidgets 2 (chatModel [] [assistantSaid ''Hel''] True)
       (envelope MsgStreamChunk ''thinking'' ''Hello''))))) = ''Hel''"
  by (simp add: Update_def onAgentMessage_def onStreamChunk_def updateSubComponents_def
      appendMessage_def MessageType_defs chatModel_def assistantSaid_def envelope_def)

subsection \<open>Sending\<close>





text \<open>
  The other half of the single flight: a key that does issue a chat send finds the state
  not processing and leaves it processing, so the next send is refused until a response
  or an error clears the flag.
\<close>

lemma send_sets_processing:
  assumes "sendChatMessageCmd msg \<in> set (snd (Update W now m (KeyMsg k)))"
  shows "\<not> isProcessing m \<and> isProcessing (fst (Update W now m (KeyMsg k)))"
proof -
  have k: "k = KeyEnter \<or> k = KeyCtrlS"
    using assms
    by (cases k) (auto simp add: Update_def onKey_def updateSubComponents_def split: AppState.splits)
  then have "k \<noteq> KeyCtrlC" "k \<noteq> KeyEsc"
    by auto
  then have u: "Update W now m (KeyMsg k) = updateSubComponents W (KeyMsg k) (onKey now m k)"
    by (rule Update_key)
  obtain m1 c1 where ok: "onKey now m k = (m1, c1)"
    by (cases "onKey now m k")
  have "sendChatMessageCmd msg \<in> set c1"
    using assms unfolding u ok by (simp add: snd_updateSubComponents)
  then have "\<not> isProcessing m \<and> isProcessing m1"
    using k ok
    by (auto simp add: onKey_def trySend_def Let_def appendMessage_def split: if_splits)
  then show ?thesis
    unfolding u ok by (simp add: isProcessing_updateSubComponents)
qed

subsection \<open>Responses without content\<close>

text \<open>
  Claim C10. A \<^verbatim>\<open>response\<close> envelope with empty content and a status other than
  \<^verbatim>\<open>initialized\<close> changes nothing in the conversation state: the transcript and
  \<open>isProcessing\<close> keep their values, the model is only passed through the text widget
  of the current screen, and listening is rearmed.
\<close>

theorem empty_response_frame:
  assumes "content d = []" and "status d \<noteq> ''initialized''"
  shows "Update W now m (agentResponseMsg \<lparr>Type = MsgResponse, Data = d\<rparr>)
       = updateSubComponents W (agentResponseMsg \<lparr>Type = MsgResponse, Data = d\<rparr>) (m, [listenToAgentCmd])
     \<and> conversation (fst (Update W now m (agentResponseMsg \<lparr>Type = MsgResponse, Data = d\<rparr>)))
       = conversation m"
  using assms
  by (simp add: Update_agentResponse onAgentMessage_def onResponse_def
      conversation_updateSubComponents)

theorem empty_response_frame_witness:
  "conversation (fst (Update idleWidgets 2 (chatModel [] [userSaid ''hi''] True) (envelope MsgResponse [] [])))
     = conversation (chatModel [] [userSaid ''hi''] True)
   \<and> isProcessing (fst (Update idleWidgets 2 (chatModel [] [userSaid ''hi''] True) (envelope MsgResponse [] [])))"
proof -
  have "conversation (fst (Update idleWidgets 2 (chatModel [] [userSaid ''hi''] True) (envelope MsgResponse [] [])))
     = conversation (chatModel [] [userSaid ''hi''] True)"
    unfolding envelope_def by (rule empty_response_frame [THEN conjunct2]) simp_all
  then show ?thesis
    by (simp add: conversation_def chatModel_def)
qed

section \<open>Facts about the test-generation tool\<close>

lemma includes_str_eval [simp]:
  "includes_str [] sub = (sub = [])"
  "includes_str (c # s) sub = (prefix sub (c # s) \<or> includes_str s sub)"
  by (cases sub; simp add: includes_str_def sublist_Cons_right)+

subsection \<open>Classification of a run\<close>

text \<open>
  Claim C2, as amended. An attempt is classified as passed exactly when the runner
  exited normally, its standard output contains \<^verbatim>\<open>PASS\<close> or \<^verbatim>\<open>ok\<close>, and its standard
  error contains none of the markers \<^verbatim>\<open>undefined:\<close>, \<^verbatim>\<open>redeclared\<close>, \<^verbatim>\<open>unknown field\<close>,
  \<^verbatim>\<open>syntax error\<close> and \<^verbatim>\<open>too many errors\<close>. A marker overrides a pass signal, and a
  rejected run (non-zero exit, timeout) is a failure.
\<close>

theorem classification:
  "attemptPassed r = classifiedSuccess codeMarkers r"
  by (cases r)
     (auto simp add: attemptPassed_def runAttempt_def classifiedSuccess_def codeMarkers_def
        hasCompilationError_def)

text \<open>
  With the marker \<^verbatim>\<open>undefined reference\<close> of the claim's list the equivalence fails in
  both directions: the code passes a run whose standard error has that text without a
  colon after \<^verbatim>\<open>undefined\<close>, and fails one that reports \<^verbatim>\<open>undefined: x\<close>.
\<close>

theorem classification_counterexample:
  "attemptPassed (Exited ''PASS'' ''undefined reference to x'') \<noteq>
     specSuccess (Exited ''PASS'' ''undefined reference to x'')
   \<and> attemptPassed (Exited ''PASS'' ''undefined: x'') \<noteq>
     specSuccess (Exited ''PASS'' ''undefined: x'')"
  by (simp add: attemptPassed_def runAttempt_def specSuccess_def classifiedSuccess_def
      specMarkers_def hasCompilationError_def hasPass_def)

subsection \<open>Guidance for the regeneration\<close>

text \<open>
  Claim C6, as amended. The error text selects one of the five categories; the five
  guidance texts differ, so the prompt shows which. A text containing \<^verbatim>\<open>redeclared\<close>
  selects the duplicate-declaration category. A text containing \<^verbatim>\<open>syntax error\<close>
  selects the syntax-error category when it contains none of \<^verbatim>\<open>redeclared\<close>,
  \<^verbatim>\<open>undefined:\<close> and \<^verbatim>\<open>unknown field\<close>, which are tested before it.
\<close>

theorem guidance_branching:
  "(includes_str e ''redeclared'' \<longrightarrow> guidanceCategory e = DuplicateDeclaration)
   \<and> (includes_str e ''syntax error'' \<and> \<not> includes_str e ''redeclared''
        \<and> \<not> includes_str e ''undefined:'' \<and> \<not> includes_str e ''unknown field''
        \<longrightarrow> guidanceCategory e = SyntaxError)
   \<and> guidanceCategory e \<in> {DuplicateDeclaration, UndefinedReference, FieldMismatch, SyntaxError, Generic}
   \<and> inj guidanceText
   \<and> errorGuidance e = guidanceText (guidanceCategory e)"
proof -
  have "inj guidanceText"
  proof (rule injI)
    fix a b assume "guidanceText a = guidanceText b"
    then show "a = b"
      by (cases a; cases b; simp add: guidanceText_def)
  qed
  moreover have "guidanceCategory e \<in> {DuplicateDeclaration, UndefinedReference, FieldMismatch, SyntaxError, Generic}"
    by (cases "guidanceCategory e") simp_all
  ultimately show ?thesis
    by (simp add: guidanceCategory_def errorGuidance_def)
qed

theorem guidance_branching_witness:
  "includes_str ''x redeclared in this block'' ''redeclared''
   \<and> guidanceCategory ''x redeclared in this block'' = DuplicateDeclaration
   \<and> includes_str ''syntax error: unexpected }'' ''syntax error''
   \<and> guidanceCategory ''syntax error: unexpected }'' = SyntaxError"
  using guidance_branching [of "''x redeclared in this block''"]
    guidance_branching [of "''syntax error: unexpected }''"]
  by simp

text \<open>A text with both \<^verbatim>\<open>syntax error\<close> and \<^verbatim>\<open>redeclared\<close> gets the duplicate-declaration guidance.\<close>

theorem guidance_branching_counterexample:
  "includes_str ''syntax error: x redeclared'' ''syntax error''
   \<and> guidanceCategory ''syntax error: x redeclared'' \<noteq> SyntaxError"
  by (simp add: guidanceCategory_def)

subsection \<open>The retry loop\<close>

lemma executed_sendMessage [simp]: "executed (sendMessage w msg) = executed w"
  by (simp add: sendMessage_def)

lemma written_sendMessage [simp]: "written (sendMessage w msg) = written w"
  by (simp add: sendMessage_def)

lemma files_sendMessage [simp]: "files (sendMessage w msg) = files w"
  by (simp add: sendMessage_def)

lemma generated_sendMessage [simp]: "generated (sendMessage w msg) = generated w"
  by (simp add: sendMessage_def)

lemma regen_frame:
  "generateTestsWithErrorContext H oc ex fw tg em n w = (c, w') \<Longrightarrow>
     executed w' = executed w \<and> written w' = written w \<and> files w' = files w
     \<and> c \<noteq> []"
  by (auto simp add: generateTestsWithErrorContext_def finalTestContent_def
      retryFallbackTemplate_def split: sum.splits)

lemma writeFile_Inr:
  "writeFile H p c w = Inr w' \<Longrightarrow>
     executed w' = executed w \<and> written w' = written w @ [(p, c)]
     \<and> files w' = (files w)(p \<mapsto> RegularFile c)"
  by (auto simp add: writeFile_def split: option.splits)

lemma regenerate_effect:
  "executed (regenerate H wd tfp oc ex fw tg em n w) = executed w
   \<and> ((written (regenerate H wd tfp oc ex fw tg em n w) = written w
        \<and> files (regenerate H wd tfp oc ex fw tg em n w) = files w)
      \<or> (\<exists>c. c \<noteq> []
           \<and> written (regenerate H wd tfp oc ex fw tg em n w) = written w @ [(resolve H wd tfp, c)]
           \<and> files (regenerate H wd tfp oc ex fw tg em n w)
               = (files w)(resolve H wd tfp \<mapsto> RegularFile c)))"
proof -
  obtain c w2 where g: "generateTestsWithErrorContext H oc ex fw tg em n
      (sendMessage w (response (retryArrows @ '' Regenerating tests (attempt '' @ showNat (n + 1) @ ''/''
                             @ showNat maxRetries @ '')...'') [])) = (c, w2)"
    by (cases "generateTestsWithErrorContext H oc ex fw tg em n
      (sendMessage w (response (retryArrows @ '' Regenerating tests (attempt '' @ showNat (n + 1) @ ''/''
                             @ showNat maxRetries @ '')...'') []))")
  note f = regen_frame [OF g]
  show ?thesis
  proof (cases "writeFile H (resolve H wd tfp) c w2")
    case (Inl e)
    with g f show ?thesis by (simp add: regenerate_def)
  next
    case (Inr w3)
    from writeFile_Inr [OF Inr] g f Inr show ?thesis
      by (simp add: regenerate_def)
  qed
qed

lemma executed_regenerate:
  "executed (regenerate H wd tfp oc ex fw tg em n w) = executed w"
  using regenerate_effect [of H wd tfp oc ex fw tg em n w] by blast

lemma attemptOnce_failed:
  assumes "runAttempt (execAsync H n (''go test -v ./'' @ tfp)) = Inl e"
  shows "\<exists>w'. attemptOnce H wd tfp oc ex fw tg n w = Inl (e, w')
     \<and> executed w' = executed w @ [''go test -v ./'' @ tfp]"
  using assms
  by (simp add: attemptOnce_def Let_def executed_regenerate)

lemma loop_step:
  "attemptOnce H wd tfp oc ex fw tg n w = Inl (e, w') \<Longrightarrow> n \<le> maxRetries \<Longrightarrow> m = n + 1 \<Longrightarrow>
     executeLoop H wd tfp oc ex fw tg n le w = executeLoop H wd tfp oc ex fw tg m (Some e) w'"
  by (subst executeLoop.simps) simp

lemma loop_end:
  "\<not> n \<le> maxRetries \<Longrightarrow>
     executeLoop H wd tfp oc ex fw tg n (Some e) w =
       (Failed maxRetries (orElse (Some (errMessage e)) ''Unknown error'') (orElse (errStdout e) []),
        sendMessage w
           (response (crossMark @ '' All '' @ showNat maxRetries @ '' test attempts failed. Final error: ''
                        @ orElse (Some (errMessage e)) ''Unknown error'') []))"
  by (subst executeLoop.simps) simp

lemma passed_returns_at_once:
  assumes "n \<le> maxRetries" and "runAttempt (execAsync H n (''go test -v ./'' @ tfp)) = Inr out"
  shows "fst (executeLoop H wd tfp oc ex fw tg n le w) = Passed n out"
  using assms
  by (subst executeLoop.simps) (simp add: attemptOnce_def Let_def)

text \<open>
  Claim C1. When each of the attempts 1 to \<open>maxRetries\<close> fails, whatever the backend and
  the disk do in between, the loop runs the test command exactly three times and
  returns a failure with \<open>attempts = 3\<close>, whose final error is the message of the error
  caught in the third attempt and whose output is that error's standard output.
\<close>

theorem retry_ceiling:
  assumes "\<forall>n\<in>{1..maxRetries}. \<not> attemptPassed (execAsync H n (''go test -v ./'' @ tfp))"
  shows "\<exists>e w'. runAttempt (execAsync H maxRetries (''go test -v ./'' @ tfp)) = Inl e
     \<and> executeTestsWithRetry H wd tfp oc ex fw tg w
         = (Failed 3 (orElse (Some (errMessage e)) ''Unknown error'') (orElse (errStdout e) []), w')
     \<and> \<not> success (fst (executeTestsWithRetry H wd tfp oc ex fw tg w))
     \<and> executed w' = executed w @ replicate 3 (''go test -v ./'' @ tfp)"
proof -
  let ?c = "''go test -v ./'' @ tfp"
  have fail: "\<exists>e. runAttempt (execAsync H n ?c) = Inl e" if "1 \<le> n" "n \<le> maxRetries" for n
  proof -
    from that have "n \<in> {1..maxRetries}" by simp
    with assms have "\<not> attemptPassed (execAsync H n ?c)" by blast
    then show ?thesis
      by (cases "runAttempt (execAsync H n ?c)") (simp_all add: attemptPassed_def)
  qed
  obtain e1 where e1: "runAttempt (execAsync H 1 ?c) = Inl e1"
    using fail [of 1] by (auto simp add: maxRetries_def)
  obtain e2 where e2: "runAttempt (execAsync H 2 ?c) = Inl e2"
    using fail [of 2] by (auto simp add: maxRetries_def)
  obtain e3 where e3: "runAttempt (execAsync H 3 ?c) = Inl e3"
    using fail [of 3] by (auto simp add: maxRetries_def)
  obtain w1 where w1: "attemptOnce H wd tfp oc ex fw tg 1 w = Inl (e1, w1)"
      "executed w1 = executed w @ [?c]"
    using attemptOnce_failed [OF e1] by blast
  obtain w2 where w2: "attemptOnce H wd tfp oc ex fw tg 2 w1 = Inl (e2, w2)"
      "executed w2 = executed w1 @ [?c]"
    using attemptOnce_failed [OF e2] by blast
  obtain w3 where w3: "attemptOnce H wd tfp oc ex fw tg 3 w2 = Inl (e3, w3)"
      "executed w3 = executed w2 @ [?c]"
    using attemptOnce_failed [OF e3] by blast
  have s1: "executeLoop H wd tfp oc ex fw tg 1 None w = executeLoop H wd tfp oc ex fw tg 2 (Some e1) w1"
    by (rule loop_step [OF w1(1)]) (simp_all add: maxRetries_def)
  have s2: "executeLoop H wd tfp oc ex fw tg 2 (Some e1) w1 = executeLoop H wd tfp oc ex fw tg 3 (Some e2) w2"
    by (rule loop_step [OF w2(1)]) (simp_all add: maxRetries_def)
  have s3: "executeLoop H wd tfp oc ex fw tg 3 (Some e2) w2 = executeLoop H wd tfp oc ex fw tg 4 (Some e3) w3"
    by (rule loop_step [OF w3(1)]) (simp_all add: maxRetries_def)
  have s4: "executeLoop H wd tfp oc ex fw tg 4 (Some e3) w3 =
       (Failed maxRetries (orElse (Some (errMessage e3)) ''Unknown error'') (orElse (errStdout e3) []),
        sendMessage w3
           (response (crossMark @ '' All '' @ showNat maxRetries @ '' test attempts failed. Final error: ''
                        @ orElse (Some (errMessage e3)) ''Unknown error'') []))"
    by (rule loop_end) (simp add: maxRetries_def)
  define w4 where "w4 = sendMessage w3
           (response (crossMark @ '' All '' @ showNat maxRetries @ '' test attempts failed. Final error: ''
                        @ orElse (Some (errMessage e3)) ''Unknown error'') [])"
  have r: "executeTestsWithRetry H wd tfp oc ex fw tg w
      = (Failed 3 (orElse (Some (errMessage e3)) ''Unknown error'') (orElse (errStdout e3) []), w4)"
    unfolding executeTestsWithRetry_def s1 s2 s3 s4 w4_def by (simp only: maxRetries_def)
  have x: "executed w4 = executed w @ replicate 3 ?c"
    by (simp add: w4_def w1(2) w2(2) w3(2) numeral_3_eq_3)
  have e: "runAttempt (execAsync H maxRetries ?c) = Inl e3"
    using e3 by (simp only: maxRetries_def)
  show ?thesis
    using r x e by (auto simp add: success_def)
qed

theorem retry_ceiling_witness:
  "\<not> attemptPassed (execAsync failingHost 1 ''go test -v ./a_test.go'')
   \<and> \<not> attemptPassed (execAsync failingHost 2 ''go test -v ./a_test.go'')
   \<and> \<not> attemptPassed (execAsync failingHost 3 ''go test -v ./a_test.go'')
   \<and> fst (executeTestsWithRetry failingHost ''/w'' ''a_test.go'' ''package main'' [] testing None sourceWorld)
       = Failed 3 ''Command failed'' ''FAIL''
   \<and> executed (snd (executeTestsWithRetry failingHost ''/w'' ''a_test.go'' ''package main'' [] testing None
         sourceWorld))
       = [''go test -v ./a_test.go'', ''go test -v ./a_test.go'', ''go test -v ./a_test.go'']"
proof -
  have fails: "\<forall>n\<in>{1..maxRetries}. \<not> attemptPassed (execAsync failingHost n (''go test -v ./'' @ ''a_test.go''))"
    by (simp add: failingHost_def attemptPassed_def runAttempt_def)
  from retry_ceiling [OF fails, of "''/w''" "''package main''" "[]" testing None sourceWorld]
  obtain e w' where r: "runAttempt (execAsync failingHost maxRetries (''go test -v ./'' @ ''a_test.go'')) = Inl e"
      "executeTestsWithRetry failingHost ''/w'' ''a_test.go'' ''package main'' [] testing None sourceWorld
         = (Failed 3 (orElse (Some (errMessage e)) ''Unknown error'') (orElse (errStdout e) []), w')"
      "executed w' = executed sourceWorld @ replicate 3 (''go test -v ./'' @ ''a_test.go'')"
    by blast
  have e: "e = \<lparr>errMessage = ''Command failed'', errStdout = Some ''FAIL'', errStderr = Some ''exit status 1''\<rparr>"
    using r(1) by (simp add: failingHost_def runAttempt_def)
  show ?thesis
    using fails r(2,3)
    by (simp add: e orElse_def sourceWorld_def numeral_3_eq_3 maxRetries_def)
qed

subsection \<open>The placeholder\<close>

lemma attemptOnce_world:
  assumes "attemptOnce H wd tfp oc ex fw tg n w = Inl (e, w') \<or> attemptOnce H wd tfp oc ex fw tg n w = Inr (r, w')"
  shows "(written w' = written w \<and> files w' = files w)
      \<or> (\<exists>c. c \<noteq> [] \<and> written w' = written w @ [(resolve H wd tfp, c)]
            \<and> files w' = (files w)(resolve H wd tfp \<mapsto> RegularFile c))"
proof (cases "runAttempt (execAsync H n (''go test -v ./'' @ tfp))")
  case (Inr out)
  with assms show ?thesis
    by (auto simp add: attemptOnce_def Let_def)
next
  case (Inl err)
  show ?thesis
  proof (cases "n < maxRetries")
    case False
    with Inl assms show ?thesis
      by (auto simp add: attemptOnce_def Let_def)
  next
    case True
    define w2 where "w2 = sendMessage
        ((sendMessage w (tool_call ''run_command''
             [(''command'', JStr (''go test -v ./'' @ tfp)), (''timeout'', JNum 30000)]))
           \<lparr>executed := executed w @ [''go test -v ./'' @ tfp]\<rparr>)
        (response (crossMark @ '' Test attempt '' @ showNat n @ '' failed: ''
            @ orElse (errStderr err) (orElse (Some (errMessage err)) ''Unknown test error''))
           [(''testOutput'', JStr (orElse (errStdout err) []))])"
    have w2: "written w2 = written w" "files w2 = files w"
      by (simp_all add: w2_def)
    have "w' = regenerate H wd tfp oc ex fw tg
        (orElse (errStderr err) (orElse (Some (errMessage err)) ''Unknown test error'')) n w2"
      using assms Inl True by (auto simp add: attemptOnce_def Let_def w2_def)
    then show ?thesis
      using regenerate_effect [of H wd tfp oc ex fw tg
          "orElse (errStderr err) (orElse (Some (errMessage err)) ''Unknown test error'')" n w2] w2
      by simp
  qed
qed

lemma loop_keeps_artifact:
  "files w (resolve H wd tfp) = Some (RegularFile c) \<Longrightarrow> c \<noteq> [] \<Longrightarrow>
     \<exists>later final.
        written (snd (executeLoop H wd tfp oc ex fw tg n le w)) = written w @ later
        \<and> files (snd (executeLoop H wd tfp oc ex fw tg n le w)) (resolve H wd tfp) = Some (RegularFile final)
        \<and> final \<noteq> []"
proof (induction H wd tfp oc ex fw tg n le w arbitrary: c rule: executeLoop.induct)
  case (1 H wd tfp oc ex fw tg n le w)
  show ?case
  proof (cases "n \<le> maxRetries")
    case False
    with "1.prems" show ?thesis
      by (subst (1 2) executeLoop.simps) simp
  next
    case True
    show ?thesis
    proof (cases "attemptOnce H wd tfp oc ex fw tg n w")
      case (Inr fin)
      obtain r w' where d: "fin = (r, w')" by (cases fin)
      have l: "executeLoop H wd tfp oc ex fw tg n le w = (r, w')"
        using True Inr d by (subst executeLoop.simps) simp
      from attemptOnce_world [where H = H and wd = wd and tfp = tfp and oc = oc and ex = ex and fw = fw
          and tg = tg and n = n and w = w and r = r and w' = w'] Inr d "1.prems"
      show ?thesis
        unfolding l by auto
    next
      case (Inl a)
      obtain e w' where a: "a = (e, w')" by (cases a)
      have l: "executeLoop H wd tfp oc ex fw tg n le w
           = executeLoop H wd tfp oc ex fw tg (n + 1) (Some e) w'"
        using True Inl a by (subst executeLoop.simps) simp
      from attemptOnce_world [where H = H and wd = wd and tfp = tfp and oc = oc and ex = ex and fw = fw
          and tg = tg and n = n and w = w and e = e and w' = w'] Inl a
      consider "written w' = written w" "files w' = files w"
        | c' where "c' \<noteq> []" "written w' = written w @ [(resolve H wd tfp, c')]"
            "files w' = (files w)(resolve H wd tfp \<mapsto> RegularFile c')"
        by auto
      then show ?thesis
      proof cases
        case 1
        then have "files w' (resolve H wd tfp) = Some (RegularFile c)"
          using "1.prems" by simp
        from "1.IH" [OF True Inl a [symmetric] this "1.prems"(2)] 1
        show ?thesis unfolding l by simp
      next
        case 2
        then have "files w' (resolve H wd tfp) = Some (RegularFile c')" by simp
        from "1.IH" [OF True Inl a [symmetric] this 2(1)] 2
        show ?thesis unfolding l by auto
      qed
    qed
  qed
qed

lemma fallback_has_reason: "includes_str (fallbackTemplate fw k reason) reason"
proof -
  have "fallbackTemplate fw k reason =
      (''package main'' @ [nl, nl] @ importStatement fw @ [nl, nl]
        @ ''// AI test generation failed, using fallback template'' @ [nl]
        @ ''// Vector search found '' @ showNat k @ '' similar examples'' @ [nl] @ ''// Error: '')
      @ reason
      @ ([nl, nl] @ ''func TestPlaceholder(t *testing.T) {'' @ [nl] @ ''  t.Skip(''
        @ quoted ''AI test generation failed - please implement tests manually'' @ '')'' @ [nl]
        @ ''}'' @ [nl])"
    by (simp add: fallbackTemplate_def)
  then show ?thesis
    unfolding includes_str_def by (metis sublist_appendI)
qed

lemma fallback_has_skip: "includes_str (fallbackTemplate fw k reason) ''t.Skip(''"
proof -
  have "fallbackTemplate fw k reason =
      (''package main'' @ [nl, nl] @ importStatement fw @ [nl, nl]
        @ ''// AI test generation failed, using fallback template'' @ [nl]
        @ ''// Vector search found '' @ showNat k @ '' similar examples'' @ [nl] @ ''// Error: ''
        @ reason @ [nl, nl] @ ''func TestPlaceholder(t *testing.T) {'' @ [nl] @ ''  '')
      @ ''t.Skip(''
      @ (quoted ''AI test generation failed - please implement tests manually'' @ '')'' @ [nl]
        @ ''}'' @ [nl])"
    by (simp add: fallbackTemplate_def)
  then show ?thesis
    unfolding includes_str_def by (metis sublist_appendI)
qed

lemma fallback_nonempty: "fallbackTemplate fw k reason \<noteq> []"
  by (simp add: fallbackTemplate_def)

text \<open>
  The first generation. When the source is a regular Go file, the embedding and the
  search succeed, the first call of the backend raises an error with message \<open>reason\<close>
  and the host does not refuse the write, the first thing the tool writes is the test
  file, with the placeholder of \<open>generateTests\<close>.
\<close>

lemma first_call_placeholder:
  assumes "files w (resolve H wd (filePath inp)) = Some (RegularFile code)"
    and "suffix ''.go'' (filePath inp)"
    and "generateEmbedding H code = Inr emb"
    and "searchVectorDatabase H emb = Inr examples"
    and "generateText H (generated w)
           (systemPrompt (replicate 10 (CHR 0x20)) (frameworkOf inp) (coverageTarget inp))
           (userPrompt code examples (frameworkOf inp)) = Inl reason"
    and "writeDenied H (resolve H wd (testPathOf (filePath inp))) = None"
  shows "\<exists>artifact later final results w'.
      execute H wd inp w
        = (ToolOk (filePath inp) (testPathOf (filePath inp)) (frameworkOf inp) results, w')
      \<and> written w' = written w @ (resolve H wd (testPathOf (filePath inp)), artifact) # later
      \<and> artifact \<noteq> [] \<and> includes_str artifact ''t.Skip('' \<and> includes_str artifact reason
      \<and> files w' (resolve H wd (testPathOf (filePath inp))) = Some (RegularFile final) \<and> final \<noteq> []"
proof -
  define fw where "fw = frameworkOf inp"
  define p where "p = resolve H wd (testPathOf (filePath inp))"
  define artifact where "artifact = fallbackTemplate fw (length examples) reason"
  define w1 where "w1 = sendMessage w
                 (tool_call ''generate_unit_tests''
                    [(''filePath'', JStr (filePath inp)),
                     (''testFramework'', JStr (frameworkName fw)),
                     (''coverageTarget'', case coverageTarget inp of None \<Rightarrow> JUndefined | Some n \<Rightarrow> JNum n)])"
  define w2 where "w2 = w1\<lparr>generated := Suc (generated w1)\<rparr>"
  define w3 where "w3 = (if files w2 p \<noteq> None then
                           sendMessage w2
                             (response
                                (warningSign @ '' Test file '' @ testPathOf (filePath inp)
                                   @ '' already exists. This operation will overwrite the existing file.'')
                                [(''requiresUserConfirmation'', JBool True),
                                 (''operation'', JStr ''overwrite_test_file''),
                                 (''filePath'', JStr (testPathOf (filePath inp))),
                                 (''fullPath'', JStr p)])
                         else w2)"
  define w4 where "w4 = w3\<lparr>files := (files w3)(p \<mapsto> RegularFile artifact),
                           written := written w3 @ [(p, artifact)]\<rparr>"
  have g: "generateTests H code examples fw (coverageTarget inp) w1 = (artifact, w2)"
    using assms(5) by (simp add: generateTests_def w1_def w2_def artifact_def fw_def)
  have wr: "writeFile H p artifact w3 = Inr w4"
    using assms(6) by (simp add: writeFile_def p_def w4_def)
  have wr3: "written w3 = written w"
    by (simp add: w3_def w2_def w1_def)
  have ne: "artifact \<noteq> []"
    by (simp add: artifact_def fallback_nonempty)
  have f4: "files w4 (resolve H wd (testPathOf (filePath inp))) = Some (RegularFile artifact)"
    by (simp add: w4_def p_def)
  obtain results w5 where loop:
      "executeTestsWithRetry H wd (testPathOf (filePath inp)) code examples fw (coverageTarget inp) w4
         = (results, w5)"
    by (cases "executeTestsWithRetry H wd (testPathOf (filePath inp)) code examples fw (coverageTarget inp) w4")
  from loop_keeps_artifact [OF f4 ne, of code examples fw "coverageTarget inp" 1 None]
  obtain later final where k: "written w5 = written w4 @ later"
      "files w5 (resolve H wd (testPathOf (filePath inp))) = Some (RegularFile final)" "final \<noteq> []"
    using loop by (auto simp add: executeTestsWithRetry_def)
  have ex: "execute H wd inp w = (ToolOk (filePath inp) (testPathOf (filePath inp)) fw results, w5)"
    using assms(1-4) g wr loop unfolding w3_def
    by (cases "files w2 p = None")
       (simp_all add: execute_def Let_def fw_def [symmetric] w1_def [symmetric] p_def [symmetric])
  have "written w5 = written w @ (p, artifact) # later"
    using k(1) wr3 by (simp add: w4_def)
  with ex k ne show ?thesis
    using fallback_has_skip [of fw "length examples" reason]
      fallback_has_reason [of fw "length examples" reason]
    unfolding p_def artifact_def fw_def by blast
qed

lemma go_suffix: "suffix ''.go'' ''a.go''"
  unfolding suffix_def by (intro exI [of _ "''a''"]) simp

text \<open>A regeneration. The placeholder of \<open>generateTestsWithErrorContext\<close> is written in the same way.\<close>

lemma retry_fallback_has_skip: "includes_str (retryFallbackTemplate fw em n) ''t.Skip(''"
proof -
  have "retryFallbackTemplate fw em n =
      (''package main'' @ [nl, nl] @ importStatement fw @ [nl, nl]
        @ ''// AI test regeneration failed, using fallback template'' @ [nl]
        @ ''// Previous error: '' @ em @ [nl]
        @ ''// Attempt: '' @ showNat (n + 1) @ [nl, nl] @ ''func TestPlaceholder(t *testing.T) {'' @ [nl] @ ''  '')
      @ ''t.Skip(''
      @ (quoted ''AI test regeneration failed - please implement tests manually'' @ '')'' @ [nl]
        @ ''}'' @ [nl])"
    by (simp add: retryFallbackTemplate_def)
  then show ?thesis
    unfolding includes_str_def by (metis sublist_appendI)
qed

lemma retry_fallback_nonempty: "retryFallbackTemplate fw em n \<noteq> []"
  by (simp add: retryFallbackTemplate_def)

lemma regenerate_placeholder:
  assumes "generateText H (generated w) (systemPrompt [] fw tg) (userPromptRetry oc ex fw em n) = Inl reason"
    and "writeDenied H (resolve H wd tfp) = None"
  shows "written (regenerate H wd tfp oc ex fw tg em n w)
       = written w @ [(resolve H wd tfp, retryFallbackTemplate fw em n)]
     \<and> files (regenerate H wd tfp oc ex fw tg em n w)
       = (files w)(resolve H wd tfp \<mapsto> RegularFile (retryFallbackTemplate fw em n))
     \<and> generated (regenerate H wd tfp oc ex fw tg em n w) = Suc (generated w)"
  using assms
  by (simp add: regenerate_def generateTestsWithErrorContext_def writeFile_def sendMessage_def)

lemma failed_attempt_placeholder:
  assumes "runAttempt (execAsync H n (''go test -v ./'' @ tfp)) = Inl e"
    and "n < maxRetries"
    and "generateText H (generated w) (systemPrompt [] fw tg)
           (userPromptRetry oc ex fw
              (orElse (errStderr e) (orElse (Some (errMessage e)) ''Unknown test error'')) n) = Inl reason"
    and "writeDenied H (resolve H wd tfp) = None"
  shows "\<exists>artifact w'. attemptOnce H wd tfp oc ex fw tg n w = Inl (e, w')
     \<and> written w' = written w @ [(resolve H wd tfp, artifact)]
     \<and> files w' (resolve H wd tfp) = Some (RegularFile artifact)
     \<and> artifact \<noteq> [] \<and> includes_str artifact ''t.Skip(''"
proof -
  define em where "em = orElse (errStderr e) (orElse (Some (errMessage e)) ''Unknown test error'')"
  define w2 where "w2 = sendMessage
        ((sendMessage w (tool_call ''run_command''
             [(''command'', JStr (''go test -v ./'' @ tfp)), (''timeout'', JNum 30000)]))
           \<lparr>executed := executed w @ [''go test -v ./'' @ tfp]\<rparr>)
        (response (crossMark @ '' Test attempt '' @ showNat n @ '' failed: '' @ em)
           [(''testOutput'', JStr (orElse (errStdout e) []))])"
  have w2: "written w2 = written w" "generated w2 = generated w"
    by (simp_all add: w2_def)
  have a: "attemptOnce H wd tfp oc ex fw tg n w = Inl (e, regenerate H wd tfp oc ex fw tg em n w2)"
    using assms(1,2) by (simp add: attemptOnce_def Let_def w2_def em_def)
  have g: "generateText H (generated w2) (systemPrompt [] fw tg) (userPromptRetry oc ex fw em n) = Inl reason"
    using assms(3) w2 by (simp add: em_def)
  from regenerate_placeholder [OF g assms(4)] w2 a
  have "attemptOnce H wd tfp oc ex fw tg n w = Inl (e, regenerate H wd tfp oc ex fw tg em n w2)
     \<and> written (regenerate H wd tfp oc ex fw tg em n w2)
         = written w @ [(resolve H wd tfp, retryFallbackTemplate fw em n)]
     \<and> files (regenerate H wd tfp oc ex fw tg em n w2) (resolve H wd tfp)
         = Some (RegularFile (retryFallbackTemplate fw em n))"
    by simp
  with retry_fallback_has_skip [of fw em n] retry_fallback_nonempty [of fw em n]
  show ?thesis
    by blast
qed

text \<open>
  Claim C3, as amended. When the first call of the generative backend raises an error
  with message \<open>reason\<close> (the source being a regular Go file, the embedding and the search
  having succeeded) and the host does not refuse the write of the test file, the tool
  does not return an error: the first thing it writes is the test file, with a non-empty
  artifact that contains a \<^verbatim>\<open>t.Skip(\<close> call and \<open>reason\<close>, and when the tool returns the
  test file is still a non-empty regular file. When a test run before the last has failed
  and the backend call of the regeneration raises, and the host does not refuse the
  write, that attempt writes the test file once, with a non-empty artifact that contains
  a \<^verbatim>\<open>t.Skip(\<close> call.
\<close>

theorem fallback_guarantee:
  "(files w (resolve H wd (filePath inp)) = Some (RegularFile code)
      \<and> suffix ''.go'' (filePath inp)
      \<and> generateEmbedding H code = Inr emb
      \<and> searchVectorDatabase H emb = Inr examples
      \<and> generateText H (generated w)
           (systemPrompt (replicate 10 (CHR 0x20)) (frameworkOf inp) (coverageTarget inp))
           (userPrompt code examples (frameworkOf inp)) = Inl reason
      \<and> writeDenied H (resolve H wd (testPathOf (filePath inp))) = None
    \<longrightarrow> (\<exists>artifact later final results w'.
          execute H wd inp w
            = (ToolOk (filePath inp) (testPathOf (filePath inp)) (frameworkOf inp) results, w')
          \<and> written w' = written w @ (resolve H wd (testPathOf (filePath inp)), artifact) # later
          \<and> artifact \<noteq> [] \<and> includes_str artifact ''t.Skip('' \<and> includes_str artifact reason
          \<and> files w' (resolve H wd (testPathOf (filePath inp))) = Some (RegularFile final)
          \<and> final \<noteq> []))
   \<and> (runAttempt (execAsync H n (''go test -v ./'' @ tfp)) = Inl e
      \<and> n < maxRetries
      \<and> generateText H (generated v) (systemPrompt [] fw tg)
           (userPromptRetry oc ex fw
              (orElse (errStderr e) (orElse (Some (errMessage e)) ''Unknown test error'')) n) = Inl reason'
      \<and> writeDenied H (resolve H wd tfp) = None
    \<longrightarrow> (\<exists>artifact v'.
          attemptOnce H wd tfp oc ex fw tg n v = Inl (e, v')
          \<and> written v' = written v @ [(resolve H wd tfp, artifact)]
          \<and> files v' (resolve H wd tfp) = Some (RegularFile artifact)
          \<and> artifact \<noteq> [] \<and> includes_str artifact ''t.Skip(''))"
proof (intro conjI impI)
  assume "files w (resolve H wd (filePath inp)) = Some (RegularFile code)
      \<and> suffix ''.go'' (filePath inp)
      \<and> generateEmbedding H code = Inr emb
      \<and> searchVectorDatabase H emb = Inr examples
      \<and> generateText H (generated w)
           (systemPrompt (replicate 10 (CHR 0x20)) (frameworkOf inp) (coverageTarget inp))
           (userPrompt code examples (frameworkOf inp)) = Inl reason
      \<and> writeDenied H (resolve H wd (testPathOf (filePath inp))) = None"
  then show "\<exists>artifact later final results w'.
          execute H wd inp w
            = (ToolOk (filePath inp) (testPathOf (filePath inp)) (frameworkOf inp) results, w')
          \<and> written w' = written w @ (resolve H wd (testPathOf (filePath inp)), artifact) # later
          \<and> artifact \<noteq> [] \<and> includes_str artifact ''t.Skip('' \<and> includes_str artifact reason
          \<and> files w' (resolve H wd (testPathOf (filePath inp))) = Some (RegularFile final)
          \<and> final \<noteq> []"
    by (elim conjE) (rule first_call_placeholder; assumption)
next
  assume "runAttempt (execAsync H n (''go test -v ./'' @ tfp)) = Inl e
      \<and> n < maxRetries
      \<and> generateText H (generated v) (systemPrompt [] fw tg)
           (userPromptRetry oc ex fw
              (orElse (errStderr e) (orElse (Some (errMessage e)) ''Unknown test error'')) n) = Inl reason'
      \<and> writeDenied H (resolve H wd tfp) = None"
  then show "\<exists>artifact v'.
          attemptOnce H wd tfp oc ex fw tg n v = Inl (e, v')
          \<and> written v' = written v @ [(resolve H wd tfp, artifact)]
          \<and> files v' (resolve H wd tfp) = Some (RegularFile artifact)
          \<and> artifact \<noteq> [] \<and> includes_str artifact ''t.Skip(''"
    by (elim conjE) (rule failed_attempt_placeholder; assumption)
qed

theorem fallback_guarantee_witness:
  "files sourceWorld (resolve failingHost ''/w'' ''a.go'') = Some (RegularFile ''package main'')
   \<and> suffix ''.go'' ''a.go''
   \<and> generateText failingHost 0
         (systemPrompt (replicate 10 (CHR 0x20)) testing None) (userPrompt ''package main'' [] testing)
       = Inl ''service unavailable''
   \<and> (\<exists>artifact later final results w'.
         execute failingHost ''/w'' (request ''a.go'') sourceWorld
           = (ToolOk ''a.go'' ''a_test.go'' testing results, w')
         \<and> written w' = (''/w/a_test.go'', artifact) # later
         \<and> artifact \<noteq> [] \<and> includes_str artifact ''t.Skip(''
         \<and> includes_str artifact ''service unavailable''
         \<and> files w' ''/w/a_test.go'' = Some (RegularFile final) \<and> final \<noteq> [])
   \<and> runAttempt (execAsync failingHost 1 ''go test -v ./a_test.go'') = Inl rejection
   \<and> (\<exists>artifact v'.
         attemptOnce failingHost ''/w'' ''a_test.go'' ''package main'' [] testing None 1 sourceWorld
           = Inl (rejection, v')
         \<and> written v' = [(''/w/a_test.go'', artifact)]
         \<and> files v' ''/w/a_test.go'' = Some (RegularFile artifact)
         \<and> artifact \<noteq> [] \<and> includes_str artifact ''t.Skip('')"
proof -
  have path: "filePath (request ''a.go'') = ''a.go''" "testPathOf ''a.go'' = ''a_test.go''"
      "frameworkOf (request ''a.go'') = testing" "coverageTarget (request ''a.go'') = None"
      "resolve failingHost ''/w'' ''a_test.go'' = ''/w/a_test.go''"
    by (simp_all add: request_def testPathOf_def frameworkOf_def failingHost_def go_suffix)
  have w0: "written sourceWorld = []" "generated sourceWorld = 0"
    by (simp_all add: sourceWorld_def)
  have h1: "files sourceWorld (resolve failingHost ''/w'' ''a.go'') = Some (RegularFile ''package main'')"
    by (simp add: sourceWorld_def failingHost_def)
  have h3: "generateEmbedding failingHost ''package main'' = Inr ()"
    by (simp add: generateEmbedding_def failingHost_def)
  have h4: "searchVectorDatabase failingHost () = Inr []"
    by (simp add: searchVectorDatabase_def failingHost_def)
  have h5: "generateText failingHost 0
      (systemPrompt (replicate 10 (CHR 0x20)) testing None) (userPrompt ''package main'' [] testing)
      = Inl ''service unavailable''"
    by (simp add: failingHost_def)
  have h6: "writeDenied failingHost ''/w/a_test.go'' = None"
    by (simp add: failingHost_def)
  have first: "files sourceWorld (resolve failingHost ''/w'' (filePath (request ''a.go'')))
        = Some (RegularFile ''package main'')
      \<and> suffix ''.go'' (filePath (request ''a.go''))
      \<and> generateEmbedding failingHost ''package main'' = Inr ()
      \<and> searchVectorDatabase failingHost () = Inr []
      \<and> generateText failingHost (generated sourceWorld)
           (systemPrompt (replicate 10 (CHR 0x20)) (frameworkOf (request ''a.go''))
              (coverageTarget (request ''a.go'')))
           (userPrompt ''package main'' [] (frameworkOf (request ''a.go''))) = Inl ''service unavailable''
      \<and> writeDenied failingHost (resolve failingHost ''/w'' (testPathOf (filePath (request ''a.go'')))) = None"
    unfolding path w0 using h1 go_suffix h3 h4 h5 h6 by simp
  have run: "runAttempt (execAsync failingHost 1 (''go test -v ./'' @ ''a_test.go'')) = Inl rejection"
    by (simp add: failingHost_def runAttempt_def rejection_def)
  have again: "runAttempt (execAsync failingHost 1 (''go test -v ./'' @ ''a_test.go'')) = Inl rejection
      \<and> 1 < maxRetries
      \<and> generateText failingHost (generated sourceWorld) (systemPrompt [] testing None)
           (userPromptRetry ''package main'' [] testing
              (orElse (errStderr rejection) (orElse (Some (errMessage rejection)) ''Unknown test error'')) 1)
           = Inl ''service unavailable''
      \<and> writeDenied failingHost (resolve failingHost ''/w'' ''a_test.go'') = None"
    using run by (simp add: maxRetries_def failingHost_def)
  from fallback_guarantee [THEN conjunct1, THEN mp, OF first]
  have one: "\<exists>artifact later final results w'.
         execute failingHost ''/w'' (request ''a.go'') sourceWorld
           = (ToolOk ''a.go'' ''a_test.go'' testing results, w')
         \<and> written w' = (''/w/a_test.go'', artifact) # later
         \<and> artifact \<noteq> [] \<and> includes_str artifact ''t.Skip(''
         \<and> includes_str artifact ''service unavailable''
         \<and> files w' ''/w/a_test.go'' = Some (RegularFile final) \<and> final \<noteq> []"
    unfolding path w0 append_Nil .
  from fallback_guarantee [THEN conjunct2, THEN mp, OF again]
  have two: "\<exists>artifact v'.
         attemptOnce failingHost ''/w'' ''a_test.go'' ''package main'' [] testing None 1 sourceWorld
           = Inl (rejection, v')
         \<and> written v' = [(''/w/a_test.go'', artifact)]
         \<and> files v' ''/w/a_test.go'' = Some (RegularFile artifact)
         \<and> artifact \<noteq> [] \<and> includes_str artifact ''t.Skip(''"
    unfolding path w0 append_Nil .
  from run have run': "runAttempt (execAsync failingHost 1 ''go test -v ./a_test.go'') = Inl rejection"
    by simp
  from h1 go_suffix h5 one run' two show ?thesis
    by blast
qed

text \<open>
  The claim as first stated fails in two places. With a backend that answers the first
  call and raises \<^verbatim>\<open>quota exceeded\<close> at each regeneration, the tool returns its result after
  three writes, none of which contains that message: the placeholder of a regeneration
  names the previous test error. And on a host that refuses the write, the tool returns
  the error of the write and leaves no test file.
\<close>

lemma generateTests_world:
  "snd (generateTests H code ex fw tg w) = w\<lparr>generated := Suc (generated w)\<rparr>"
  by (simp add: generateTests_def split: sum.splits)

lemma generateTests_artifact:
  "fst (generateTests H code ex fw tg (sendMessage w msg)) = fst (generateTests H code ex fw tg w)"
  by (simp add: generateTests_def split: sum.splits)

lemma execute_reaches_loop:
  assumes "files w (resolve H wd (filePath inp)) = Some (RegularFile code)"
    and "suffix ''.go'' (filePath inp)"
    and "generateEmbedding H code = Inr emb"
    and "searchVectorDatabase H emb = Inr examples"
    and "writeDenied H (resolve H wd (testPathOf (filePath inp))) = None"
  shows "\<exists>w4.
      written w4 = written w @ [(resolve H wd (testPathOf (filePath inp)),
                                 fst (generateTests H code examples (frameworkOf inp) (coverageTarget inp) w))]
      \<and> generated w4 = Suc (generated w)
      \<and> files w4 (resolve H wd (testPathOf (filePath inp)))
          = Some (RegularFile (fst (generateTests H code examples (frameworkOf inp) (coverageTarget inp) w)))
      \<and> execute H wd inp w
          = (ToolOk (filePath inp) (testPathOf (filePath inp)) (frameworkOf inp)
               (fst (executeTestsWithRetry H wd (testPathOf (filePath inp)) code examples
                       (frameworkOf inp) (coverageTarget inp) w4)),
             snd (executeTestsWithRetry H wd (testPathOf (filePath inp)) code examples
                    (frameworkOf inp) (coverageTarget inp) w4))"
proof -
  define fw where "fw = frameworkOf inp"
  define p where "p = resolve H wd (testPathOf (filePath inp))"
  define w1 where "w1 = sendMessage w
                 (tool_call ''generate_unit_tests''
                    [(''filePath'', JStr (filePath inp)),
                     (''testFramework'', JStr (frameworkName fw)),
                     (''coverageTarget'', case coverageTarget inp of None \<Rightarrow> JUndefined | Some n \<Rightarrow> JNum n)])"
  define artifact where "artifact = fst (generateTests H code examples fw (coverageTarget inp) w)"
  define w2 where "w2 = w1\<lparr>generated := Suc (generated w1)\<rparr>"
  define w3 where "w3 = (if files w2 p \<noteq> None then
                           sendMessage w2
                             (response
                                (warningSign @ '' Test file '' @ testPathOf (filePath inp)
                                   @ '' already exists. This operation will overwrite the existing file.'')
                                [(''requiresUserConfirmation'', JBool True),
                                 (''operation'', JStr ''overwrite_test_file''),
                                 (''filePath'', JStr (testPathOf (filePath inp))),
                                 (''fullPath'', JStr p)])
                         else w2)"
  define w4 where "w4 = w3\<lparr>files := (files w3)(p \<mapsto> RegularFile artifact),
                           written := written w3 @ [(p, artifact)]\<rparr>"
  have g: "generateTests H code examples fw (coverageTarget inp) w1 = (artifact, w2)"
    using generateTests_world [of H code examples fw "coverageTarget inp" w1]
      generateTests_artifact [of H code examples fw "coverageTarget inp" w]
    by (simp add: prod_eq_iff w1_def w2_def artifact_def)
  have wr: "writeFile H p artifact w3 = Inr w4"
    using assms(5) by (simp add: writeFile_def p_def w4_def)
  have w4: "written w4 = written w @ [(p, artifact)]" "generated w4 = Suc (generated w)"
      "files w4 p = Some (RegularFile artifact)"
    by (simp_all add: w4_def w3_def w2_def w1_def)
  obtain results w5 where loop:
      "executeTestsWithRetry H wd (testPathOf (filePath inp)) code examples fw (coverageTarget inp) w4
         = (results, w5)"
    by (cases "executeTestsWithRetry H wd (testPathOf (filePath inp)) code examples fw (coverageTarget inp) w4")
  have "execute H wd inp w = (ToolOk (filePath inp) (testPathOf (filePath inp)) fw results, w5)"
    using assms(1-4) g wr loop unfolding w3_def
    by (cases "files w2 p = None")
       (simp_all add: execute_def Let_def fw_def [symmetric] w1_def [symmetric] p_def [symmetric])
  with w4 loop show ?thesis
    unfolding p_def artifact_def fw_def by (intro exI [of _ w4]) simp
qed

lemma attempt_then_regenerate:
  assumes "runAttempt (execAsync H n (''go test -v ./'' @ tfp)) = Inl e"
    and "n < maxRetries"
    and "em = orElse (errStderr e) (orElse (Some (errMessage e)) ''Unknown test error'')"
    and "generateText H (generated w) (systemPrompt [] fw tg) (userPromptRetry oc ex fw em n) = Inl reason"
    and "writeDenied H (resolve H wd tfp) = None"
  shows "\<exists>w'. attemptOnce H wd tfp oc ex fw tg n w = Inl (e, w')
     \<and> written w' = written w @ [(resolve H wd tfp, retryFallbackTemplate fw em n)]
     \<and> generated w' = Suc (generated w)"
proof -
  define w2 where "w2 = sendMessage
        ((sendMessage w (tool_call ''run_command''
             [(''command'', JStr (''go test -v ./'' @ tfp)), (''timeout'', JNum 30000)]))
           \<lparr>executed := executed w @ [''go test -v ./'' @ tfp]\<rparr>)
        (response (crossMark @ '' Test attempt '' @ showNat n @ '' failed: '' @ em)
           [(''testOutput'', JStr (orElse (errStdout e) []))])"
  have w2: "written w2 = written w" "generated w2 = generated w"
    by (simp_all add: w2_def)
  have a: "attemptOnce H wd tfp oc ex fw tg n w = Inl (e, regenerate H wd tfp oc ex fw tg em n w2)"
    using assms(1-3) by (simp add: attemptOnce_def Let_def w2_def)
  from regenerate_placeholder [of H w2 fw tg oc ex em n reason wd tfp] assms(4,5) w2 a
  show ?thesis
    by simp
qed

lemma attempt_last:
  assumes "runAttempt (execAsync H n (''go test -v ./'' @ tfp)) = Inl e" and "\<not> n < maxRetries"
  shows "\<exists>w'. attemptOnce H wd tfp oc ex fw tg n w = Inl (e, w') \<and> written w' = written w"
  using assms by (simp add: attemptOnce_def Let_def)

lemma no_quota_in_answer:
  "\<not> includes_str (finalTestContent testing (cleanTestContent ''func TestA(t *testing.T) {}'')) ''quota exceeded''"
  by (simp add: finalTestContent_def cleanTestContent_def trim_def trimRight_def trimLeft.simps
      runeLen_def jsSpaces_def asciiSpaces_def unicodeSpaces_def dropFenceGo_def dropFence_def
      importStatement_def quoted_def)

lemma no_quota_in_retry1:
  "\<not> includes_str (retryFallbackTemplate testing ''exit status 1'' 1) ''quota exceeded''"
  "includes_str (retryFallbackTemplate testing ''exit status 1'' 1) ''t.Skip(''"
  by (simp_all add: retryFallbackTemplate_def importStatement_def quoted_def showNat.simps)

lemma no_quota_in_retry2:
  "\<not> includes_str (retryFallbackTemplate testing ''exit status 1'' 2) ''quota exceeded''"
  by (simp add: retryFallbackTemplate_def importStatement_def quoted_def showNat.simps)

lemma quota_run:
  "fst (execute quotaHost ''/w'' (request ''a.go'') sourceWorld)
     = ToolOk ''a.go'' ''a_test.go'' testing (Failed 3 ''Command failed'' ''FAIL'')
   \<and> written (snd (execute quotaHost ''/w'' (request ''a.go'') sourceWorld))
     = [(''/w/a_test.go'', finalTestContent testing (cleanTestContent ''func TestA(t *testing.T) {}'')),
        (''/w/a_test.go'', retryFallbackTemplate testing ''exit status 1'' 1),
        (''/w/a_test.go'', retryFallbackTemplate testing ''exit status 1'' 2)]"
proof -
  let ?H = quotaHost
  let ?c = "''go test -v ./'' @ ''a_test.go''"
  define e where "e = \<lparr>errMessage = ''Command failed'', errStdout = Some ''FAIL'',
                         errStderr = Some ''exit status 1''\<rparr>"
  have path: "filePath (request ''a.go'') = ''a.go''" "testPathOf ''a.go'' = ''a_test.go''"
      "frameworkOf (request ''a.go'') = testing" "coverageTarget (request ''a.go'') = None"
      "resolve ?H ''/w'' ''a_test.go'' = ''/w/a_test.go''"
    by (simp_all add: request_def testPathOf_def frameworkOf_def quotaHost_def failingHost_def go_suffix)
  have h1: "files sourceWorld (resolve ?H ''/w'' (filePath (request ''a.go'')))
      = Some (RegularFile ''package main'')"
    by (simp add: sourceWorld_def quotaHost_def failingHost_def request_def)
  have h2: "suffix ''.go'' (filePath (request ''a.go''))"
    using go_suffix by (simp add: request_def)
  have h3: "generateEmbedding ?H ''package main'' = Inr ()"
    by (simp add: generateEmbedding_def quotaHost_def failingHost_def)
  have h4: "searchVectorDatabase ?H () = Inr []"
    by (simp add: searchVectorDatabase_def quotaHost_def failingHost_def)
  have nowrite: "writeDenied ?H q = None" for q
    by (simp add: quotaHost_def failingHost_def)
  have first: "fst (generateTests ?H ''package main'' [] testing None sourceWorld)
      = finalTestContent testing (cleanTestContent ''func TestA(t *testing.T) {}'')"
    by (simp add: generateTests_def quotaHost_def failingHost_def sourceWorld_def)
  have w0: "written sourceWorld = []" "generated sourceWorld = 0"
    by (simp_all add: sourceWorld_def)
  from execute_reaches_loop [OF h1 h2 h3 h4 nowrite]
  obtain w4 where w4:
      "written w4 = [(''/w/a_test.go'', finalTestContent testing (cleanTestContent ''func TestA(t *testing.T) {}''))]"
      "generated w4 = Suc 0"
      "execute ?H ''/w'' (request ''a.go'') sourceWorld
         = (ToolOk ''a.go'' ''a_test.go'' testing
              (fst (executeTestsWithRetry ?H ''/w'' ''a_test.go'' ''package main'' [] testing None w4)),
            snd (executeTestsWithRetry ?H ''/w'' ''a_test.go'' ''package main'' [] testing None w4))"
    unfolding path first w0 by auto
  have run: "runAttempt (execAsync ?H n ?c) = Inl e" for n
    by (simp add: quotaHost_def failingHost_def runAttempt_def e_def)
  have em: "''exit status 1'' = orElse (errStderr e) (orElse (Some (errMessage e)) ''Unknown test error'')"
    by (simp add: e_def orElse_def)
  have raises: "k \<noteq> 0 \<Longrightarrow> generateText ?H k sys usr = Inl ''quota exceeded''" for k sys usr
    by (simp add: quotaHost_def)
  from attempt_then_regenerate [OF run _ em raises nowrite, of 1 w4 "''/w''" "''package main''" "[]" testing None]
  obtain w5 where w5: "attemptOnce ?H ''/w'' ''a_test.go'' ''package main'' [] testing None 1 w4 = Inl (e, w5)"
      "written w5 = written w4 @ [(''/w/a_test.go'', retryFallbackTemplate testing ''exit status 1'' 1)]"
      "generated w5 = Suc (generated w4)"
    unfolding path using w4(2) by (auto simp add: maxRetries_def)
  from attempt_then_regenerate [OF run _ em raises nowrite, of 2 w5 "''/w''" "''package main''" "[]" testing None]
  obtain w6 where w6: "attemptOnce ?H ''/w'' ''a_test.go'' ''package main'' [] testing None 2 w5 = Inl (e, w6)"
      "written w6 = written w5 @ [(''/w/a_test.go'', retryFallbackTemplate testing ''exit status 1'' 2)]"
    unfolding path using w5(3) by (auto simp add: maxRetries_def)
  from attempt_last [OF run, of 3 "''/w''" "''package main''" "[]" testing None w6]
  obtain w7 where w7: "attemptOnce ?H ''/w'' ''a_test.go'' ''package main'' [] testing None 3 w6 = Inl (e, w7)"
      "written w7 = written w6"
    by (auto simp add: maxRetries_def)
  have s1: "executeLoop ?H ''/w'' ''a_test.go'' ''package main'' [] testing None 1 None w4
      = executeLoop ?H ''/w'' ''a_test.go'' ''package main'' [] testing None 2 (Some e) w5"
    by (rule loop_step [OF w5(1)]) (simp_all add: maxRetries_def)
  have s2: "executeLoop ?H ''/w'' ''a_test.go'' ''package main'' [] testing None 2 (Some e) w5
      = executeLoop ?H ''/w'' ''a_test.go'' ''package main'' [] testing None 3 (Some e) w6"
    by (rule loop_step [OF w6(1)]) (simp_all add: maxRetries_def)
  have s3: "executeLoop ?H ''/w'' ''a_test.go'' ''package main'' [] testing None 3 (Some e) w6
      = executeLoop ?H ''/w'' ''a_test.go'' ''package main'' [] testing None 4 (Some e) w7"
    by (rule loop_step [OF w7(1)]) (simp_all add: maxRetries_def)
  have s4: "executeLoop ?H ''/w'' ''a_test.go'' ''package main'' [] testing None 4 (Some e) w7 =
       (Failed maxRetries (orElse (Some (errMessage e)) ''Unknown error'') (orElse (errStdout e) []),
        sendMessage w7
           (response (crossMark @ '' All '' @ showNat maxRetries @ '' test attempts failed. Final error: ''
                        @ orElse (Some (errMessage e)) ''Unknown error'') []))"
    by (rule loop_end) (simp add: maxRetries_def)
  have r: "fst (executeTestsWithRetry ?H ''/w'' ''a_test.go'' ''package main'' [] testing None w4)
        = Failed 3 ''Command failed'' ''FAIL''"
      "written (snd (executeTestsWithRetry ?H ''/w'' ''a_test.go'' ''package main'' [] testing None w4))
        = written w7"
    unfolding executeTestsWithRetry_def s1 s2 s3 s4
    by (simp_all add: maxRetries_def e_def orElse_def)
  show ?thesis
    unfolding w4(3) using r w7(2) w6(2) w5(2) w4(1) by simp
qed

theorem fallback_guarantee_counterexample:
  "generateText quotaHost 1 (systemPrompt [] testing None)
       (userPromptRetry ''package main'' [] testing ''exit status 1'' 1) = Inl ''quota exceeded''
   \<and> fst (execute quotaHost ''/w'' (request ''a.go'') sourceWorld)
       = ToolOk ''a.go'' ''a_test.go'' testing (Failed 3 ''Command failed'' ''FAIL'')
   \<and> length (written (snd (execute quotaHost ''/w'' (request ''a.go'') sourceWorld))) = 3
   \<and> \<not> list_ex (includedIn ''quota exceeded'')
         (map snd (written (snd (execute quotaHost ''/w'' (request ''a.go'') sourceWorld))))
   \<and> fst (execute readOnlyHost ''/w'' (request ''a.go'') sourceWorld)
       = ToolError ''EACCES: permission denied'' ''a.go''
   \<and> written (snd (execute readOnlyHost ''/w'' (request ''a.go'') sourceWorld)) = []
   \<and> files (snd (execute readOnlyHost ''/w'' (request ''a.go'') sourceWorld)) ''/w/a_test.go'' = None"
proof -
  have raised: "generateText quotaHost 1 (systemPrompt [] testing None)
       (userPromptRetry ''package main'' [] testing ''exit status 1'' 1) = Inl ''quota exceeded''"
    by (simp add: quotaHost_def)
  have quiet: "\<not> list_ex (includedIn ''quota exceeded'')
         (map snd (written (snd (execute quotaHost ''/w'' (request ''a.go'') sourceWorld))))"
    using no_quota_in_answer no_quota_in_retry1(1) no_quota_in_retry2
    by (simp add: quota_run includedIn_def)
  have refused: "fst (execute readOnlyHost ''/w'' (request ''a.go'') sourceWorld)
       = ToolError ''EACCES: permission denied'' ''a.go''
     \<and> written (snd (execute readOnlyHost ''/w'' (request ''a.go'') sourceWorld)) = []
     \<and> files (snd (execute readOnlyHost ''/w'' (request ''a.go'') sourceWorld)) ''/w/a_test.go'' = None"
    by (simp add: execute_def Let_def request_def frameworkOf_def testPathOf_def go_suffix
        readOnlyHost_def failingHost_def sourceWorld_def generateEmbedding_def searchVectorDatabase_def
        generateTests_def writeFile_def sendMessage_def)
  from raised quiet refused show ?thesis
    by (simp add: quota_run)
qed

subsection \<open>Rejected inputs\<close>

text \<open>
  Claim C9. When the source path does not exist, is not a regular file, or does not end
  in \<^verbatim>\<open>.go\<close>, the tool returns an error object that carries the path, and nothing
  happens but the announcement of the tool call: no file changes, the backend is not
  called, no command runs and nothing is written.
\<close>

theorem validation_error:
  assumes "files w (resolve H wd (filePath inp)) = None
     \<or> files w (resolve H wd (filePath inp)) = Some OtherNode
     \<or> \<not> suffix ''.go'' (filePath inp)"
  shows "\<exists>e. fst (execute H wd inp w) = ToolError e (filePath inp)
     \<and> snd (execute H wd inp w)
         = sendMessage w
             (tool_call ''generate_unit_tests''
                [(''filePath'', JStr (filePath inp)),
                 (''testFramework'', JStr (frameworkName (frameworkOf inp))),
                 (''coverageTarget'', case coverageTarget inp of None \<Rightarrow> JUndefined | Some n \<Rightarrow> JNum n)])
     \<and> files (snd (execute H wd inp w)) = files w
     \<and> generated (snd (execute H wd inp w)) = generated w
     \<and> executed (snd (execute H wd inp w)) = executed w
     \<and> written (snd (execute H wd inp w)) = written w"
proof (cases "files w (resolve H wd (filePath inp))")
  case None
  then show ?thesis
    by (simp add: execute_def Let_def)
next
  case (Some node)
  show ?thesis
  proof (cases node)
    case OtherNode
    with Some show ?thesis
      by (simp add: execute_def Let_def)
  next
    case (RegularFile src)
    with Some assms have "\<not> suffix ''.go'' (filePath inp)"
      by simp
    with Some RegularFile show ?thesis
      by (simp add: execute_def Let_def)
  qed
qed

theorem validation_error_witness:
  "files sourceWorld (resolve failingHost ''/w'' ''missing.go'') = None
   \<and> (\<exists>e. fst (execute failingHost ''/w'' (request ''missing.go'') sourceWorld) = ToolError e ''missing.go'')
   \<and> files (snd (execute failingHost ''/w'' (request ''missing.go'') sourceWorld)) = files sourceWorld
   \<and> generated (snd (execute failingHost ''/w'' (request ''missing.go'') sourceWorld)) = 0
   \<and> executed (snd (execute failingHost ''/w'' (request ''missing.go'') sourceWorld)) = []
   \<and> written (snd (execute failingHost ''/w'' (request ''missing.go'') sourceWorld)) = []"
proof -
  have h: "files sourceWorld (resolve failingHost ''/w'' (filePath (request ''missing.go''))) = None"
    by (simp add: sourceWorld_def failingHost_def request_def)
  have p: "filePath (request ''missing.go'') = ''missing.go''"
      "generated sourceWorld = 0" "executed sourceWorld = []" "written sourceWorld = []"
    by (simp_all add: request_def sourceWorld_def)
  from validation_error [OF disjI1, OF h] h
  show ?thesis
    unfolding p by blast
qed

section \<open>Lines that never reach the worker\<close>

lemma Contains_eval:
  "Contains [] sub = (sub = [])"
  "Contains (c # s) sub = (prefix sub (c # s) \<or> Contains s sub)"
  by (cases sub; simp add: Contains_def sublist_Cons_right)+

text \<open>
  Claim C7 does not hold of the code. A chat message is accepted as soon as it is not
  blank, and only its double quotes are escaped; the API key is not escaped at all. For
  the accepted message \<^verbatim>\<open>a\\<close>, for a two-line message sent with Ctrl+S and for a key
  with a double quote, the payload is not valid JSON, \<^verbatim>\<open>json.Marshal\<close> fails, its
  error is dropped, and the only byte written is the line feed: an empty line, which is
  no envelope. A plain message is written as one well-formed line.
\<close>

theorem unescaped_payload_drops_line:
  "snd (Update idleWidgets 5 (chatModel (''a'' @ [bs]) [] False) (KeyMsg KeyEnter))
     = [sendChatMessageCmd (''a'' @ [bs]), WidgetCmd, WidgetCmd]
   \<and> sendChatMessage (chatModel [] [] True) (''a'' @ [bs]) = Inr [nl]
   \<and> snd (Update idleWidgets 5 (chatModel (''a'' @ [nl] @ ''b'') [] False) (KeyMsg KeyCtrlS))
     = [sendChatMessageCmd (''a'' @ [nl] @ ''b''), WidgetCmd, WidgetCmd]
   \<and> sendChatMessage (chatModel [] [] True) (''a'' @ [nl] @ ''b'') = Inr [nl]
   \<and> startAgent Started (''k'' @ [dq]) = Inr [nl]
   \<and> \<not> Valid []
   \<and> sendChatMessage (chatModel [] [] True) ''hi''
     = Inr (''{'' @ quoted ''type'' @ '':'' @ quoted ''chat'' @ '','' @ quoted ''data'' @ '':{''
            @ quoted ''message'' @ '':'' @ quoted ''hi'' @ ''}}'' @ [nl])"
proof -
  have keys: "snd (Update idleWidgets 5 (chatModel (''a'' @ [bs]) [] False) (KeyMsg KeyEnter))
       = [sendChatMessageCmd (''a'' @ [bs]), WidgetCmd, WidgetCmd]"
    "snd (Update idleWidgets 5 (chatModel (''a'' @ [nl] @ ''b'') [] False) (KeyMsg KeyCtrlS))
       = [sendChatMessageCmd (''a'' @ [nl] @ ''b''), WidgetCmd, WidgetCmd]"
    by (simp_all add: Update_def onKey_def trySend_def Let_def updateSubComponents_def chatModel_def
        idleWidgets_def appendMessage_def TrimSpace_def trimRight_def trimLeft.simps runeLen_def
        goSpaces_def asciiSpaces_def unicodeSpaces_def Contains_eval)
  have lines: "sendChatMessage (chatModel [] [] True) (''a'' @ [bs]) = Inr [nl]"
    "sendChatMessage (chatModel [] [] True) (''a'' @ [nl] @ ''b'') = Inr [nl]"
    "sendChatMessage (chatModel [] [] True) ''hi''
     = Inr (''{'' @ quoted ''type'' @ '':'' @ quoted ''chat'' @ '','' @ quoted ''data'' @ '':{''
            @ quoted ''message'' @ '':'' @ quoted ''hi'' @ ''}}'' @ [nl])"
    by (simp_all add: sendChatMessage_def chatModel_def writeLine_def Marshal_def chatData_def
        ReplaceAll.simps Valid_def quoted_def isJsonSpace_def isControl_def MsgChat_def)
  have init: "startAgent Started (''k'' @ [dq]) = Inr [nl]"
    by (simp add: startAgent_def writeLine_def Marshal_def initData_def Valid_def quoted_def
        isJsonSpace_def isControl_def MsgInit_def)
  have empty: "\<not> Valid []"
    by (simp add: Valid_def)
  from keys lines init empty show ?thesis
    by simp
qed


end
